theory Spec2Isabelle
  imports Complex_Main "HOL-Library.Monad_Syntax"
begin

text \<open>
  A model of the simulation engine of the WOO tokenomics simulator, the class
  \<^verbatim>\<open>WOOSimulation\<close> of \<^verbatim>\<open>js/simulation.js\<close>, with the constants it takes from the
  configuration file (\<^verbatim>\<open>CONFIG\<close> and \<^verbatim>\<open>DEFAULT_VALUES\<close>). A method that changes the
  instance is a function from the instance to the changed instance; a method that can
  throw returns either the exception, with the instance as the exception leaves it, or
  the changed instance. Console output is left out.
\<close>

section \<open>JavaScript numbers\<close>

text \<open>
  The simulator computes with JavaScript numbers. They are modelled as the reals extended
  with the three special values the guards of \<^verbatim>\<open>js/simulation.js\<close> test for:
  \<open>Infinity\<close>, \<open>-Infinity\<close> and \<open>NaN\<close>. Arithmetic on finite values is exact:
  the engine is modelled without the rounding and overflow of IEEE doubles (the sum and
  the difference rounded to doubles are given in a section of their own, for the one
  statement that depends on them), and the sign of a zero is not
  tracked (it only matters for a division by zero, which the model sends to the infinity
  of the dividend's sign). A property of an object that was never assigned reads as
  \<open>undefined\<close> in JavaScript; in every arithmetic operation, comparison and
  \<open>isFinite\<close> test of the simulator \<open>undefined\<close> behaves as \<open>NaN\<close>, and the
  model writes \<open>NaN\<close> for it.
\<close>

datatype jsnum = Num real | PInf | NInf | NaN

instantiation jsnum :: "{uminus, plus, minus, times, inverse, ord}"
begin

fun uminus_jsnum :: "jsnum \<Rightarrow> jsnum" where
  "- (Num a) = Num (- a)"
| "- PInf = NInf"
| "- NInf = PInf"
| "- NaN = NaN"

fun plus_jsnum :: "jsnum \<Rightarrow> jsnum \<Rightarrow> jsnum" where
  "NaN + _ = NaN"
| "_ + NaN = NaN"
| "Num a + Num b = Num (a + b)"
| "PInf + NInf = NaN"
| "NInf + PInf = NaN"
| "PInf + _ = PInf"
| "_ + PInf = PInf"
| "NInf + _ = NInf"
| "_ + NInf = NInf"

definition minus_jsnum :: "jsnum \<Rightarrow> jsnum \<Rightarrow> jsnum" where
  "(a::jsnum) - b = a + (- b)"

fun times_jsnum :: "jsnum \<Rightarrow> jsnum \<Rightarrow> jsnum" where
  "NaN * _ = NaN"
| "_ * NaN = NaN"
| "Num a * Num b = Num (a * b)"
| "Num a * PInf = (if a = 0 then NaN else if 0 < a then PInf else NInf)"
| "Num a * NInf = (if a = 0 then NaN else if 0 < a then NInf else PInf)"
| "PInf * Num b = (if b = 0 then NaN else if 0 < b then PInf else NInf)"
| "NInf * Num b = (if b = 0 then NaN else if 0 < b then NInf else PInf)"
| "PInf * PInf = PInf"
| "PInf * NInf = NInf"
| "NInf * PInf = NInf"
| "NInf * NInf = PInf"

fun divide_jsnum :: "jsnum \<Rightarrow> jsnum \<Rightarrow> jsnum" where
  "divide_jsnum NaN _ = NaN"
| "divide_jsnum _ NaN = NaN"
| "divide_jsnum (Num a) (Num b) =
     (if b = 0 then (if a = 0 then NaN else if 0 < a then PInf else NInf)
      else Num (a / b))"
| "divide_jsnum (Num a) PInf = Num 0"
| "divide_jsnum (Num a) NInf = Num 0"
| "divide_jsnum PInf (Num b) = (if 0 \<le> b then PInf else NInf)"
| "divide_jsnum NInf (Num b) = (if 0 \<le> b then NInf else PInf)"
| "divide_jsnum PInf PInf = NaN"
| "divide_jsnum PInf NInf = NaN"
| "divide_jsnum NInf PInf = NaN"
| "divide_jsnum NInf NInf = NaN"

definition inverse_jsnum :: "jsnum \<Rightarrow> jsnum" where
  "inverse_jsnum a = divide (Num 1) a"

fun less_jsnum :: "jsnum \<Rightarrow> jsnum \<Rightarrow> bool" where
  "(NaN < _) = False"
| "(_ < NaN) = False"
| "(Num a < Num b) = (a < b)"
| "(_ < NInf) = False"
| "(NInf < _) = True"
| "(PInf < _) = False"
| "(Num a < PInf) = True"

fun less_eq_jsnum :: "jsnum \<Rightarrow> jsnum \<Rightarrow> bool" where
  "(NaN \<le> _) = False"
| "(_ \<le> NaN) = False"
| "(Num a \<le> Num b) = (a \<le> b)"
| "(NInf \<le> _) = True"
| "(_ \<le> PInf) = True"
| "(PInf \<le> _) = False"
| "(Num a \<le> NInf) = False"

instance ..

end

text \<open>\<^verbatim>\<open>isFinite(x)\<close> and \<^verbatim>\<open>isNaN(x)\<close>.\<close>

fun isFinite :: "jsnum \<Rightarrow> bool" where
  "isFinite (Num a) = True"
| "isFinite _ = False"

fun isNaN :: "jsnum \<Rightarrow> bool" where
  "isNaN NaN = True"
| "isNaN _ = False"

text \<open>\<^verbatim>\<open>Math.min(a, b)\<close> and \<^verbatim>\<open>Math.max(a, b)\<close>: \<open>NaN\<close> when an argument is.\<close>

fun Math_min :: "jsnum \<Rightarrow> jsnum \<Rightarrow> jsnum" where
  "Math_min NaN _ = NaN"
| "Math_min _ NaN = NaN"
| "Math_min a b = (if a < b then a else b)"

fun Math_max :: "jsnum \<Rightarrow> jsnum \<Rightarrow> jsnum" where
  "Math_max NaN _ = NaN"
| "Math_max _ NaN = NaN"
| "Math_max a b = (if a < b then b else a)"

text \<open>\<^verbatim>\<open>Math.floor(a)\<close>.\<close>

fun Math_floor :: "jsnum \<Rightarrow> jsnum" where
  "Math_floor (Num a) = Num (of_int \<lfloor>a\<rfloor>)"
| "Math_floor x = x"

text \<open>
  The remainder \<^verbatim>\<open>a % b\<close>: the dividend minus the divisor times the quotient truncated
  towards zero.
\<close>

definition trunc :: "real \<Rightarrow> int" where
  "trunc x = (if 0 \<le> x then \<lfloor>x\<rfloor> else \<lceil>x\<rceil>)"

fun js_rem :: "jsnum \<Rightarrow> jsnum \<Rightarrow> jsnum" where
  "js_rem (Num a) (Num b) = (if b = 0 then NaN else Num (a - b * of_int (trunc (a / b))))"
| "js_rem (Num a) PInf = Num a"
| "js_rem (Num a) NInf = Num a"
| "js_rem _ _ = NaN"

text \<open>\<^verbatim>\<open>x || 0\<close> on a number: \<open>0\<close> and \<open>NaN\<close> (and \<open>undefined\<close>) are falsy.\<close>

fun or_zero :: "jsnum \<Rightarrow> jsnum" where
  "or_zero NaN = Num 0"
| "or_zero x = x"

text \<open>
  \<^verbatim>\<open>arr[i]\<close> on an array of numbers: \<open>undefined\<close> (here \<open>NaN\<close>) beyond the end.
\<close>

definition js_nth :: "jsnum list \<Rightarrow> nat \<Rightarrow> jsnum" where
  "js_nth xs i = (if i < length xs then xs ! i else NaN)"

section \<open>Data model\<close>

text \<open>
  The second argument of \<^verbatim>\<open>initialize\<close>. Every test of the simulator is
  \<^verbatim>\<open>this.modelVersion === 'v1'\<close>, so \<open>V2\<close> stands for every other value (also for
  the \<open>undefined\<close> of an instance that was never initialised).
\<close>

datatype model_version = V1 | V2

text \<open>
  The \<^verbatim>\<open>controls\<close> object that \<^verbatim>\<open>initialize\<close> reads. A field is \<open>None\<close> when the
  object has no such control (\<^verbatim>\<open>getControlValues\<close> leaves out the controls it did not
  find), so that reading its \<^verbatim>\<open>.value\<close> throws a \<open>TypeError\<close>; otherwise it holds
  what \<^verbatim>\<open>parseFloat\<close> (\<^verbatim>\<open>parseInt\<close> for the duration) makes of the control's value,
  \<open>NaN\<close> for a text that is not a number.
\<close>

record controls =
  woofiSwapVolume :: "jsnum option"
  woofiPerpVolume :: "jsnum option"
  wooxVolume :: "jsnum option"
  autoCompoundRate :: "jsnum option"
  buybackBurnShare :: "jsnum option"
  stakerShare :: "jsnum option"
  treasuryShare :: "jsnum option"
  wooxStakerBps :: "jsnum option"
  affiliateCut :: "jsnum option"
  woofiTradingFeeRate :: "jsnum option"
  supplyElasticity :: "jsnum option"
  buyingPressureElasticity :: "jsnum option"
  buyingPressureDecay :: "jsnum option"
  simulationDuration :: "jsnum option"
  circulatingSupply :: "jsnum option"
  initialStaked :: "jsnum option"
  initialWoofiTreasury :: "jsnum option"
  initialWooxTreasury :: "jsnum option"

text \<open>\<^verbatim>\<open>this.simParams\<close>. A field the chosen variant does not set is \<open>NaN\<close>.\<close>

record sim_params =
  monthly_woofi_swap_volume :: jsnum
  monthly_woofi_perp_volume :: jsnum
  monthly_woox_volume :: jsnum
  woofi_staker_share :: jsnum
  auto_compound_adoption_rate :: jsnum
  woox_staker_bps :: jsnum
  buyback_burn_share :: jsnum
  staker_share :: jsnum
  treasury_share :: jsnum
  affiliate_share :: jsnum
  woofi_fee_rate :: jsnum
  supply_elasticity :: jsnum
  buying_pressure_elasticity :: jsnum
  buying_pressure_decay :: jsnum
  simulation_months :: jsnum
  initial_circulating_supply :: jsnum
  woox_total_fee_rate :: jsnum
  woox_staker_bps_reward :: jsnum

text \<open>
  \<^verbatim>\<open>this.simState.history\<close>: one array per tracked quantity.
  \<open>buyback_fees_received\<close> is created by the first \<^verbatim>\<open>recordHistory\<close>; the model
  holds the empty list until then.
\<close>

record history =
  months :: "jsnum list"
  woofi_treasury :: "jsnum list"
  woox_treasury :: "jsnum list"
  circulating :: "jsnum list"
  staked :: "jsnum list"
  price :: "jsnum list"
  monthlyBurned :: "jsnum list"
  marketPurchases :: "jsnum list"
  permImpact :: "jsnum list"
  tempImpact :: "jsnum list"
  usdc_distributed :: "jsnum list"
  buyback_amounts :: "jsnum list"
  auto_compound_amounts :: "jsnum list"
  treasury_inflows :: "jsnum list"
  woofi_fees_generated :: "jsnum list"
  woox_fees_generated :: "jsnum list"
  woox_treasury_inflows :: "jsnum list"
  staker_fees_received :: "jsnum list"
  treasury_fees_received :: "jsnum list"
  orderly_fees_received :: "jsnum list"
  buyback_fees_received :: "jsnum list"
  treasury_runway_months :: "jsnum list"
  price_change_pct :: "jsnum list"
  supply_reduction_pct :: "jsnum list"
  cumulative_burned :: "jsnum list"
  staking_ratio :: "jsnum list"
  treasury_runway :: "jsnum list"

text \<open>
  \<^verbatim>\<open>this.simState.initial_values\<close>; its fields \<^verbatim>\<open>price\<close>,
  \<^verbatim>\<open>circulating_supply\<close>, \<^verbatim>\<open>total_treasury\<close> and \<^verbatim>\<open>total_staked\<close> carry the
  prefix \<open>iv_\<close> here.
\<close>

record initial_values =
  iv_price :: jsnum
  iv_circulating_supply :: jsnum
  iv_total_treasury :: jsnum
  iv_total_staked :: jsnum

text \<open>
  An entry of an annual-ratio array: a number or \<^verbatim>\<open>null\<close>. The arrays are written by
  index (\<^verbatim>\<open>arr[yearNumber - 1] = ...\<close>), which leaves holes, so they are maps from the
  index; an array that does not exist yet is the empty map.
\<close>

datatype ratio = Null | Ratio (ratio_value: jsnum)

type_synonym ratio_array = "int \<rightharpoonup> ratio"

text \<open>
  \<^verbatim>\<open>this.simState\<close>. The tracking variables that
  \<^verbatim>\<open>updateIntermediateVariables\<close> copies from a month's intermediate results have the
  names of the fields they are copied from; here they carry the suffix \<open>_st\<close>.
  \<open>history\<close> and \<open>initial_values\<close> are \<open>None\<close> while the state has no such
  property (before \<^verbatim>\<open>initialize\<close>).
\<close>

record sim_state =
  month :: jsnum
  woo_price :: jsnum
  max_supply :: jsnum
  total_supply :: jsnum
  circulating_supply :: jsnum
  total_staked_woo :: jsnum
  woofi_treasury_balance :: jsnum
  woox_treasury_balance :: jsnum
  cumulative_tokens_burned :: jsnum
  temporary_price_impact :: jsnum
  total_gross_woofi_fees_st :: jsnum
  gross_woofi_swap_fees_st :: jsnum
  gross_woofi_perp_fees_st :: jsnum
  woox_staker_rewards_st :: jsnum
  total_woox_fees_st :: jsnum
  woox_treasury_inflow_st :: jsnum
  total_staker_rewards_usd_st :: jsnum
  woofi_treasury_inflow_st :: jsnum
  total_affiliate_cut_st :: jsnum
  tokens_to_burn_st :: jsnum
  buyback_usd_st :: jsnum
  buyback_burn_amount_st :: jsnum
  auto_compound_usd_st :: jsnum
  market_purchase_tokens_st :: jsnum
  usdc_to_stakers_st :: jsnum
  usdc_distribution_st :: jsnum
  permanent_impact_st :: jsnum
  total_temporary_impact_st :: jsnum
  history :: "history option"
  initial_values :: "initial_values option"
  annual_pr_ratios :: ratio_array
  annual_pv_ratios_usd :: ratio_array
  annual_pv_ratios_market :: ratio_array

text \<open>
  A \<^verbatim>\<open>WOOSimulation\<close> instance. (\<^verbatim>\<open>simInterval\<close> is a timer handle that the engine
  only clears; it is left out.)
\<close>

record sim =
  modelVersion :: model_version
  simParams :: sim_params
  simState :: sim_state

text \<open>The exception a stage can throw: a property read on \<open>undefined\<close>.\<close>

datatype js_error = TypeError

text \<open>The results that the stages of one month hand to each other.\<close>

record fee_data =
  gross_woofi_swap_fees :: jsnum
  gross_woofi_perp_fees :: jsnum
  total_gross_woofi_fees :: jsnum
  woox_staker_rewards :: jsnum
  total_woox_fees :: jsnum
  woox_treasury_inflow :: jsnum

record distribution_data =
  buyback_burn_amount :: jsnum
  affiliate_cut :: jsnum
  woofi_staker_rewards :: jsnum
  woofi_treasury_inflow_usd :: jsnum
  woox_treasury_inflow_usd :: jsnum
  total_staker_rewards_usd :: jsnum
  total_affiliate_cut :: jsnum
  staker_fees_total :: jsnum
  treasury_fees_total :: jsnum
  orderly_fees_total :: jsnum
  buyback_fees_total :: jsnum

text \<open>
  The burn stage's result. Variant B's result has no \<^verbatim>\<open>auto_compound_usd\<close> and no
  \<^verbatim>\<open>usdc_distribution\<close>, and neither variant sets \<^verbatim>\<open>tokens_to_burn\<close>, which
  \<^verbatim>\<open>recordHistory\<close> reads: they are \<open>NaN\<close> then.
\<close>

record burn_data =
  buyback_usd :: jsnum
  auto_compound_usd :: jsnum
  usdc_distribution :: jsnum
  market_purchase_tokens :: jsnum
  tokens_burned :: jsnum
  usdc_to_stakers :: jsnum
  woofi_tokens_burned :: jsnum
  woox_tokens_burned :: jsnum
  tokens_to_burn :: jsnum

record price_impact_data =
  permanent_impact :: jsnum
  new_temporary_impact :: jsnum
  total_temporary_impact :: jsnum

section \<open>Configuration constants\<close>

text \<open>
  \<^verbatim>\<open>CONFIG.INITIAL_STATE\<close> and \<^verbatim>\<open>CONFIG.FIXED_PARAMS\<close>. The fields of the state
  that \<^verbatim>\<open>CONFIG.INITIAL_STATE\<close> does not have (\<open>month\<close>, \<open>buyback_burn_amount_st\<close>,
  \<open>history\<close>, \<open>initial_values\<close> and the annual arrays) are undefined in it.
\<close>

definition INITIAL_STATE :: sim_state where
  "INITIAL_STATE = \<lparr>
     month = NaN,
     woo_price = Num 0.065,
     max_supply = Num 3000000000,
     total_supply = Num 2209243570,
     circulating_supply = Num 1909243570,
     total_staked_woo = Num 629528114,
     woofi_treasury_balance = Num 41766263,
     woox_treasury_balance = Num 32529236,
     cumulative_tokens_burned = Num 0,
     temporary_price_impact = Num 0,
     total_gross_woofi_fees_st = Num 0,
     gross_woofi_swap_fees_st = Num 0,
     gross_woofi_perp_fees_st = Num 0,
     woox_staker_rewards_st = Num 0,
     total_woox_fees_st = Num 0,
     woox_treasury_inflow_st = Num 0,
     total_staker_rewards_usd_st = Num 0,
     woofi_treasury_inflow_st = Num 0,
     total_affiliate_cut_st = Num 0,
     tokens_to_burn_st = Num 0,
     buyback_usd_st = Num 0,
     buyback_burn_amount_st = NaN,
     auto_compound_usd_st = Num 0,
     market_purchase_tokens_st = Num 0,
     usdc_to_stakers_st = Num 0,
     usdc_distribution_st = Num 0,
     permanent_impact_st = Num 0,
     total_temporary_impact_st = Num 0,
     history = None,
     initial_values = None,
     annual_pr_ratios = Map.empty,
     annual_pv_ratios_usd = Map.empty,
     annual_pv_ratios_market = Map.empty \<rparr>"

definition FIXED_woox_total_fee_rate :: jsnum where
  "FIXED_woox_total_fee_rate = Num 0.0001"

definition FIXED_woofi_staker_share :: jsnum where
  "FIXED_woofi_staker_share = Num 0.8"

definition FIXED_woox_staker_bps_reward :: jsnum where
  "FIXED_woox_staker_bps_reward = Num 0.00001"

section \<open>The constructor and \<^verbatim>\<open>initialize\<close>\<close>

text \<open>\<^verbatim>\<open>simState = {}\<close>, \<^verbatim>\<open>simParams = {}\<close>: every property is undefined.\<close>

definition empty_params :: sim_params where
  "empty_params = \<lparr>
     monthly_woofi_swap_volume = NaN, monthly_woofi_perp_volume = NaN,
     monthly_woox_volume = NaN, woofi_staker_share = NaN,
     auto_compound_adoption_rate = NaN, woox_staker_bps = NaN,
     buyback_burn_share = NaN, staker_share = NaN, treasury_share = NaN,
     affiliate_share = NaN, woofi_fee_rate = NaN, supply_elasticity = NaN,
     buying_pressure_elasticity = NaN, buying_pressure_decay = NaN,
     simulation_months = NaN, initial_circulating_supply = NaN,
     woox_total_fee_rate = NaN, woox_staker_bps_reward = NaN \<rparr>"

definition empty_state :: sim_state where
  "empty_state = \<lparr>
     month = NaN, woo_price = NaN, max_supply = NaN, total_supply = NaN,
     circulating_supply = NaN, total_staked_woo = NaN,
     woofi_treasury_balance = NaN, woox_treasury_balance = NaN,
     cumulative_tokens_burned = NaN, temporary_price_impact = NaN,
     total_gross_woofi_fees_st = NaN, gross_woofi_swap_fees_st = NaN,
     gross_woofi_perp_fees_st = NaN, woox_staker_rewards_st = NaN,
     total_woox_fees_st = NaN, woox_treasury_inflow_st = NaN,
     total_staker_rewards_usd_st = NaN, woofi_treasury_inflow_st = NaN,
     total_affiliate_cut_st = NaN, tokens_to_burn_st = NaN,
     buyback_usd_st = NaN, buyback_burn_amount_st = NaN,
     auto_compound_usd_st = NaN, market_purchase_tokens_st = NaN,
     usdc_to_stakers_st = NaN, usdc_distribution_st = NaN,
     permanent_impact_st = NaN, total_temporary_impact_st = NaN,
     history = None, initial_values = None,
     annual_pr_ratios = Map.empty, annual_pv_ratios_usd = Map.empty,
     annual_pv_ratios_market = Map.empty \<rparr>"

definition constructor :: sim where
  "constructor = \<lparr> modelVersion = V2, simParams = empty_params, simState = empty_state \<rparr>"

text \<open>
  The object literal assigned to \<^verbatim>\<open>this.simParams\<close>. Its property values are
  evaluated in order, and the first control that is missing throws; the controls of the
  other variant are not read.
\<close>

definition read_params :: "controls \<Rightarrow> model_version \<Rightarrow> sim_params option" where
  "read_params c v = do {
     swap \<leftarrow> woofiSwapVolume c;
     perp \<leftarrow> woofiPerpVolume c;
     woox \<leftarrow> wooxVolume c;
     (adoption, bps, buyback, staker, treasury) \<leftarrow>
       (case v of
          V1 \<Rightarrow> do {
            rate \<leftarrow> autoCompoundRate c;
            Some (rate / Num 100, FIXED_woox_staker_bps_reward, NaN, NaN, NaN) }
        | V2 \<Rightarrow> do {
            bb \<leftarrow> buybackBurnShare c;
            st \<leftarrow> stakerShare c;
            tr \<leftarrow> treasuryShare c;
            wb \<leftarrow> wooxStakerBps c;
            Some (NaN, wb / Num 10000, bb / Num 100, st / Num 100, tr / Num 100) });
     aff \<leftarrow> affiliateCut c;
     fee \<leftarrow> woofiTradingFeeRate c;
     se \<leftarrow> supplyElasticity c;
     be \<leftarrow> buyingPressureElasticity c;
     bd \<leftarrow> buyingPressureDecay c;
     dur \<leftarrow> simulationDuration c;
     circ \<leftarrow> circulatingSupply c;
     Some \<lparr>
       monthly_woofi_swap_volume = swap * Num 1000000 * Num 30,
       monthly_woofi_perp_volume = perp * Num 1000000 * Num 30,
       monthly_woox_volume = woox * Num 1000000 * Num 30,
       woofi_staker_share = FIXED_woofi_staker_share,
       auto_compound_adoption_rate = adoption,
       woox_staker_bps = bps,
       buyback_burn_share = buyback,
       staker_share = staker,
       treasury_share = treasury,
       affiliate_share = aff / Num 100,
       woofi_fee_rate = fee / Num 100 / Num 100,
       supply_elasticity = se,
       buying_pressure_elasticity = be,
       buying_pressure_decay = bd / Num 100,
       simulation_months = dur,
       initial_circulating_supply = circ * Num 1000000,
       woox_total_fee_rate = FIXED_woox_total_fee_rate,
       woox_staker_bps_reward = FIXED_woox_staker_bps_reward \<rparr> }"

definition empty_history :: history where
  "empty_history = \<lparr>
     months = [], woofi_treasury = [], woox_treasury = [], circulating = [],
     staked = [], price = [], monthlyBurned = [], marketPurchases = [],
     permImpact = [], tempImpact = [], usdc_distributed = [],
     buyback_amounts = [], auto_compound_amounts = [], treasury_inflows = [],
     woofi_fees_generated = [], woox_fees_generated = [],
     woox_treasury_inflows = [], staker_fees_received = [],
     treasury_fees_received = [], orderly_fees_received = [],
     buyback_fees_received = [], treasury_runway_months = [],
     price_change_pct = [], supply_reduction_pct = [], cumulative_burned = [],
     staking_ratio = [], treasury_runway = [] \<rparr>"

text \<open>
  The object literal assigned to \<^verbatim>\<open>this.simState\<close>, followed by the assignment of
  \<^verbatim>\<open>initial_values\<close> from the new state.
\<close>

definition read_state :: "controls \<Rightarrow> sim_params \<Rightarrow> sim_state option" where
  "read_state c p = do {
     stk \<leftarrow> initialStaked c;
     wfi \<leftarrow> initialWoofiTreasury c;
     wx \<leftarrow> initialWooxTreasury c;
     Some (INITIAL_STATE \<lparr>
       month := Num 0,
       circulating_supply := initial_circulating_supply p,
       total_staked_woo := stk * Num 1000000,
       woofi_treasury_balance := wfi * Num 1000000,
       woox_treasury_balance := wx * Num 1000000,
       history := Some empty_history,
       initial_values := Some \<lparr>
         iv_price = woo_price INITIAL_STATE,
         iv_circulating_supply = initial_circulating_supply p,
         iv_total_treasury = wfi * Num 1000000 + wx * Num 1000000,
         iv_total_staked = stk * Num 1000000 \<rparr>,
       annual_pv_ratios_usd := Map.empty,
       annual_pv_ratios_market := Map.empty \<rparr>) }"

text \<open>
  \<^verbatim>\<open>initialize(controls, modelVersion)\<close>. There is no validation: the only failure is
  the \<open>TypeError\<close> of a missing control, and the assignments made before it stay
  (the result carries the instance as the exception leaves it).
\<close>

definition initialize :: "sim \<Rightarrow> controls \<Rightarrow> model_version \<Rightarrow> (js_error \<times> sim) + sim" where
  "initialize this c v =
     (let this1 = this \<lparr> modelVersion := v \<rparr> in
      case read_params c v of
        None \<Rightarrow> Inl (TypeError, this1)
      | Some p \<Rightarrow>
          (let this2 = this1 \<lparr> simParams := p \<rparr> in
           case read_state c p of
             None \<Rightarrow> Inl (TypeError, this2)
           | Some st \<Rightarrow> Inr (this2 \<lparr> simState := st \<rparr>)))"

section \<open>The stages of one month\<close>

subsection \<open>Fee generation and distribution\<close>

definition calculateFees :: "sim \<Rightarrow> fee_data" where
  "calculateFees this =
     (let p = simParams this;
          gross_swap = monthly_woofi_swap_volume p * woofi_fee_rate p;
          gross_perp = monthly_woofi_perp_volume p * woofi_fee_rate p;
          total_gross = gross_swap + gross_perp;
          total_woox = monthly_woox_volume p * woox_total_fee_rate p;
          woox_rewards = monthly_woox_volume p * woox_staker_bps p;
          woox_inflow = total_woox - woox_rewards
      in \<lparr> gross_woofi_swap_fees = gross_swap,
           gross_woofi_perp_fees = gross_perp,
           total_gross_woofi_fees = total_gross,
           woox_staker_rewards = woox_rewards,
           total_woox_fees = total_woox,
           woox_treasury_inflow = woox_inflow \<rparr>)"

definition distributeFeesV1 :: "sim \<Rightarrow> fee_data \<Rightarrow> distribution_data" where
  "distributeFeesV1 this feeData =
     (let p = simParams this;
          gross_swap_fees = gross_woofi_swap_fees feeData;
          gross_perp_fees = gross_woofi_perp_fees feeData;
          net_swap_fees = gross_swap_fees;
          swap_staker_rewards = net_swap_fees * woofi_staker_share p;
          swap_treasury_inflow = net_swap_fees * (Num 1 - woofi_staker_share p);
          perp_affiliate_cut = gross_perp_fees * affiliate_share p;
          net_perp_fees = gross_perp_fees - perp_affiliate_cut;
          perp_staker_rewards = net_perp_fees * woofi_staker_share p;
          perp_treasury_inflow = net_perp_fees * (Num 1 - woofi_staker_share p);
          total_woofi_staker_rewards = swap_staker_rewards + perp_staker_rewards;
          total_woofi_treasury_inflow = swap_treasury_inflow + perp_treasury_inflow;
          total_cut = perp_affiliate_cut;
          total_rewards = total_woofi_staker_rewards + woox_staker_rewards feeData
      in \<lparr> buyback_burn_amount = Num 0,
           affiliate_cut = total_cut,
           woofi_staker_rewards = total_woofi_staker_rewards,
           woofi_treasury_inflow_usd = total_woofi_treasury_inflow,
           woox_treasury_inflow_usd = woox_treasury_inflow feeData,
           total_staker_rewards_usd = total_rewards,
           total_affiliate_cut = total_cut,
           staker_fees_total = total_woofi_staker_rewards + woox_staker_rewards feeData,
           treasury_fees_total = total_woofi_treasury_inflow + woox_treasury_inflow feeData,
           orderly_fees_total = total_cut,
           buyback_fees_total = Num 0 \<rparr>)"

definition distributeFeesV2 :: "sim \<Rightarrow> fee_data \<Rightarrow> distribution_data" where
  "distributeFeesV2 this feeData =
     (let p = simParams this;
          gross_swap_fees = gross_woofi_swap_fees feeData;
          gross_perp_fees = gross_woofi_perp_fees feeData;
          net_swap_fees = gross_swap_fees;
          swap_buyback_amount = net_swap_fees * buyback_burn_share p;
          swap_staker_rewards = net_swap_fees * staker_share p;
          swap_treasury_inflow = net_swap_fees * treasury_share p;
          perp_affiliate_cut = gross_perp_fees * affiliate_share p;
          net_perp_fees = gross_perp_fees - perp_affiliate_cut;
          perp_buyback_amount = net_perp_fees * buyback_burn_share p;
          perp_staker_rewards = net_perp_fees * staker_share p;
          perp_treasury_inflow = net_perp_fees * treasury_share p;
          total_buyback_burn_amount = swap_buyback_amount + perp_buyback_amount;
          total_woofi_staker_rewards = swap_staker_rewards + perp_staker_rewards;
          total_woofi_treasury_inflow = swap_treasury_inflow + perp_treasury_inflow;
          total_cut = perp_affiliate_cut;
          total_rewards = total_woofi_staker_rewards + woox_staker_rewards feeData
      in \<lparr> buyback_burn_amount = total_buyback_burn_amount,
           affiliate_cut = total_cut,
           woofi_staker_rewards = total_woofi_staker_rewards,
           woofi_treasury_inflow_usd = total_woofi_treasury_inflow,
           woox_treasury_inflow_usd = woox_treasury_inflow feeData,
           total_staker_rewards_usd = total_rewards,
           total_affiliate_cut = total_cut,
           staker_fees_total = total_woofi_staker_rewards + woox_staker_rewards feeData,
           treasury_fees_total = total_woofi_treasury_inflow + woox_treasury_inflow feeData,
           orderly_fees_total = total_cut,
           buyback_fees_total = total_buyback_burn_amount \<rparr>)"

definition distributeFees :: "sim \<Rightarrow> fee_data \<Rightarrow> distribution_data" where
  "distributeFees this feeData =
     (if modelVersion this = V1 then distributeFeesV1 this feeData
      else distributeFeesV2 this feeData)"

subsection \<open>Buyback and burn\<close>

text \<open>The two all-zero results of the guards.\<close>

definition zero_burn_V1 :: burn_data where
  "zero_burn_V1 = \<lparr> buyback_usd = Num 0, auto_compound_usd = Num 0,
     usdc_distribution = Num 0, market_purchase_tokens = Num 0, tokens_burned = Num 0,
     usdc_to_stakers = Num 0, woofi_tokens_burned = Num 0, woox_tokens_burned = Num 0,
     tokens_to_burn = NaN \<rparr>"

definition zero_burn_V2 :: burn_data where
  "zero_burn_V2 = \<lparr> buyback_usd = Num 0, auto_compound_usd = NaN,
     usdc_distribution = NaN, market_purchase_tokens = Num 0, tokens_burned = Num 0,
     usdc_to_stakers = Num 0, woofi_tokens_burned = Num 0, woox_tokens_burned = Num 0,
     tokens_to_burn = NaN \<rparr>"

definition calculateAutoCompoundAndBurn :: "sim \<Rightarrow> distribution_data \<Rightarrow> burn_data" where
  "calculateAutoCompoundAndBurn this distributionData =
     (let total_staker_rewards = total_staker_rewards_usd distributionData in
      if total_staker_rewards < Num 0 \<or> \<not> isFinite total_staker_rewards then zero_burn_V1
      else if woo_price (simState this) \<le> Num 0 \<or> \<not> isFinite (woo_price (simState this))
      then zero_burn_V1
      else
        (let auto_compound = total_staker_rewards * auto_compound_adoption_rate (simParams this);
             usdc = total_staker_rewards - auto_compound;
             purchase = (if auto_compound > Num 0
                         then auto_compound / woo_price (simState this) else Num 0);
             woofi_burned = Math_min purchase (woofi_treasury_balance (simState this));
             woox_burned = Num 0;
             burned = woofi_burned + woox_burned
         in \<lparr> buyback_usd = Num 0,
              auto_compound_usd = auto_compound,
              usdc_distribution = usdc,
              market_purchase_tokens = purchase,
              tokens_burned = burned,
              usdc_to_stakers = usdc,
              woofi_tokens_burned = woofi_burned,
              woox_tokens_burned = woox_burned,
              tokens_to_burn = NaN \<rparr>))"

definition calculateBuybackAndBurnV2 :: "sim \<Rightarrow> distribution_data \<Rightarrow> burn_data" where
  "calculateBuybackAndBurnV2 this distributionData =
     (let buyback = buyback_burn_amount distributionData;
          usdc = total_staker_rewards_usd distributionData in
      if buyback < Num 0 \<or> \<not> isFinite buyback then zero_burn_V2
      else if woo_price (simState this) \<le> Num 0 \<or> \<not> isFinite (woo_price (simState this))
      then zero_burn_V2
      else
        (let purchase = buyback / woo_price (simState this);
             burned = purchase
         in \<lparr> buyback_usd = buyback,
              auto_compound_usd = NaN,
              usdc_distribution = NaN,
              market_purchase_tokens = purchase,
              tokens_burned = burned,
              usdc_to_stakers = usdc,
              woofi_tokens_burned = Num 0,
              woox_tokens_burned = Num 0,
              tokens_to_burn = NaN \<rparr>))"

definition calculateBuybackAndBurn :: "sim \<Rightarrow> distribution_data \<Rightarrow> burn_data" where
  "calculateBuybackAndBurn this distributionData =
     (if modelVersion this = V1 then calculateAutoCompoundAndBurn this distributionData
      else calculateBuybackAndBurnV2 this distributionData)"

subsection \<open>Price impact\<close>

definition calculatePriceImpact :: "sim \<Rightarrow> burn_data \<Rightarrow> price_impact_data" where
  "calculatePriceImpact this burnData =
     (let p = simParams this; st = simState this;
          supply_reduction = (if circulating_supply st > Num 0
                              then tokens_burned burnData / circulating_supply st else Num 0);
          permanent = supply_reduction * supply_elasticity p;
          market_depth_proxy =
            (monthly_woofi_swap_volume p + monthly_woox_volume p) / Num 30;
          buying_pressure_usd = (if modelVersion this = V1 then auto_compound_usd burnData
                                 else buyback_usd burnData);
          buy_pressure_ratio = (if market_depth_proxy > Num 0
                                then buying_pressure_usd / market_depth_proxy else Num 0);
          new_temporary = buy_pressure_ratio * buying_pressure_elasticity p;
          decayed_impact = temporary_price_impact st * (Num 1 - buying_pressure_decay p);
          total_temporary = decayed_impact + new_temporary
      in \<lparr> permanent_impact = permanent,
           new_temporary_impact = new_temporary,
           total_temporary_impact = total_temporary \<rparr>)"

subsection \<open>State updates\<close>

definition updateIntermediateVariables ::
  "sim \<Rightarrow> fee_data \<Rightarrow> distribution_data \<Rightarrow> burn_data \<Rightarrow> price_impact_data \<Rightarrow> sim" where
  "updateIntermediateVariables this feeData distributionData burnData priceImpactData =
     (let st1 = (simState this) \<lparr>
            total_gross_woofi_fees_st := total_gross_woofi_fees feeData,
            gross_woofi_swap_fees_st := gross_woofi_swap_fees feeData,
            gross_woofi_perp_fees_st := gross_woofi_perp_fees feeData,
            woox_staker_rewards_st := woox_staker_rewards feeData,
            total_woox_fees_st := total_woox_fees feeData,
            woox_treasury_inflow_st := woox_treasury_inflow feeData,
            total_staker_rewards_usd_st := total_staker_rewards_usd distributionData,
            woofi_treasury_inflow_st := woofi_treasury_inflow_usd distributionData,
            total_affiliate_cut_st := total_affiliate_cut distributionData,
            tokens_to_burn_st := tokens_burned burnData,
            market_purchase_tokens_st := market_purchase_tokens burnData,
            usdc_to_stakers_st := usdc_to_stakers burnData \<rparr>;
          st2 = (if modelVersion this = V1
                 then st1 \<lparr> auto_compound_usd_st := auto_compound_usd burnData,
                            usdc_distribution_st := usdc_distribution burnData,
                            buyback_usd_st := Num 0,
                            buyback_burn_amount_st := Num 0 \<rparr>
                 else st1 \<lparr> buyback_usd_st := buyback_usd burnData,
                            buyback_burn_amount_st := buyback_burn_amount distributionData,
                            auto_compound_usd_st := Num 0,
                            usdc_distribution_st := Num 0 \<rparr>)
      in this \<lparr> simState := st2 \<lparr>
            permanent_impact_st := permanent_impact priceImpactData,
            total_temporary_impact_st := total_temporary_impact priceImpactData \<rparr> \<rparr>)"

definition updateTreasuryV1 :: "sim \<Rightarrow> distribution_data \<Rightarrow> burn_data \<Rightarrow> sim" where
  "updateTreasuryV1 this distributionData burnData =
     (let st = simState this;
          woofi_inflow_tokens = (if woo_price st > Num 0
             then woofi_treasury_inflow_usd distributionData / woo_price st else Num 0);
          woox_inflow_tokens = (if woo_price st > Num 0
             then woox_treasury_inflow_usd distributionData / woo_price st else Num 0);
          woofi = woofi_treasury_balance st + (woofi_inflow_tokens - woofi_tokens_burned burnData);
          woox = woox_treasury_balance st + (woox_inflow_tokens - woox_tokens_burned burnData)
      in this \<lparr> simState := st \<lparr>
            woofi_treasury_balance := Math_max (Num 0) woofi,
            woox_treasury_balance := Math_max (Num 0) woox \<rparr> \<rparr>)"

definition updateTreasuryV2 :: "sim \<Rightarrow> distribution_data \<Rightarrow> burn_data \<Rightarrow> sim" where
  "updateTreasuryV2 this distributionData burnData =
     (let st = simState this;
          woofi_inflow_tokens = (if woo_price st > Num 0
             then woofi_treasury_inflow_usd distributionData / woo_price st else Num 0);
          woox_inflow_tokens = (if woo_price st > Num 0
             then woox_treasury_inflow_usd distributionData / woo_price st else Num 0)
      in this \<lparr> simState := st \<lparr>
            woofi_treasury_balance := woofi_treasury_balance st + woofi_inflow_tokens,
            woox_treasury_balance := woox_treasury_balance st + woox_inflow_tokens \<rparr> \<rparr>)"

definition updateTreasury :: "sim \<Rightarrow> distribution_data \<Rightarrow> burn_data \<Rightarrow> sim" where
  "updateTreasury this distributionData burnData =
     (if modelVersion this = V1 then updateTreasuryV1 this distributionData burnData
      else updateTreasuryV2 this distributionData burnData)"

definition updateStakerPositionsV1 :: "sim \<Rightarrow> burn_data \<Rightarrow> sim" where
  "updateStakerPositionsV1 this burnData =
     (if market_purchase_tokens burnData > Num 0
      then this \<lparr> simState := (simState this) \<lparr>
             total_staked_woo :=
               total_staked_woo (simState this) + market_purchase_tokens burnData \<rparr> \<rparr>
      else this)"

definition updateStakerPositionsV2 :: "sim \<Rightarrow> burn_data \<Rightarrow> sim" where
  "updateStakerPositionsV2 this burnData = this"

definition updateStakerPositions :: "sim \<Rightarrow> burn_data \<Rightarrow> sim" where
  "updateStakerPositions this burnData =
     (if modelVersion this = V1 then updateStakerPositionsV1 this burnData
      else updateStakerPositionsV2 this burnData)"

text \<open>
  \<^verbatim>\<open>updateSupply\<close>: after the decrements the code only logs a negative supply.
\<close>

definition updateSupply :: "sim \<Rightarrow> burn_data \<Rightarrow> sim" where
  "updateSupply this burnData =
     (if tokens_burned burnData < Num 0 \<or> \<not> isFinite (tokens_burned burnData) \<or>
         market_purchase_tokens burnData < Num 0 \<or>
         \<not> isFinite (market_purchase_tokens burnData)
      then this
      else
        (let st = simState this in
         this \<lparr> simState := st \<lparr>
           total_supply := total_supply st - tokens_burned burnData,
           circulating_supply := circulating_supply st - market_purchase_tokens burnData,
           cumulative_tokens_burned :=
             cumulative_tokens_burned st + tokens_burned burnData \<rparr> \<rparr>))"

definition price_change_multiplier :: "price_impact_data \<Rightarrow> jsnum" where
  "price_change_multiplier priceImpactData =
     Num 1 + permanent_impact priceImpactData + total_temporary_impact priceImpactData"

definition updatePrice :: "sim \<Rightarrow> price_impact_data \<Rightarrow> sim" where
  "updatePrice this priceImpactData =
     (let multiplier = price_change_multiplier priceImpactData in
      if isNaN multiplier \<or> \<not> isFinite multiplier \<or> multiplier \<le> Num 0 then this
      else
        (let st = simState this in
         this \<lparr> simState := st \<lparr>
           woo_price :=
             Math_max (Num 0.0001) (Math_min (Num 1000) (woo_price st * multiplier)),
           temporary_price_impact := total_temporary_impact priceImpactData \<rparr> \<rparr>))"

subsection \<open>History and annual ratios\<close>

text \<open>\<^verbatim>\<open>arr.push(x)\<close>.\<close>

definition push :: "'a list \<Rightarrow> 'a \<Rightarrow> 'a list" where
  "push xs x = xs @ [x]"

text \<open>
  The pushes of \<^verbatim>\<open>recordHistory\<close> up to \<^verbatim>\<open>treasury_runway_months\<close>: they read
  the state but not \<^verbatim>\<open>initial_values\<close>.
\<close>

definition treasuryRunway :: "sim_state \<Rightarrow> burn_data \<Rightarrow> jsnum" where
  "treasuryRunway st burnData =
     (let currentBurnRate = tokens_to_burn burnData / Num 1000000;
          totalTreasury =
            (woofi_treasury_balance st + woox_treasury_balance st) / Num 1000000
      in if currentBurnRate > Num 0 then totalTreasury / currentBurnRate else PInf)"

definition record_flows ::
  "model_version \<Rightarrow> sim_state \<Rightarrow> history \<Rightarrow> burn_data \<Rightarrow> distribution_data \<Rightarrow> fee_data
   \<Rightarrow> history" where
  "record_flows v st h burnData distributionData feeData =
     (let h1 = h \<lparr>
            months := push (months h) (month st + Num 1),
            woofi_treasury := push (woofi_treasury h) (woofi_treasury_balance st / Num 1000000),
            woox_treasury := push (woox_treasury h) (woox_treasury_balance st / Num 1000000),
            circulating := push (circulating h) (circulating_supply st / Num 1000000),
            staked := push (staked h) (total_staked_woo st / Num 1000000),
            price := push (price h) (woo_price st),
            monthlyBurned := push (monthlyBurned h) (tokens_burned burnData / Num 1000000),
            marketPurchases :=
              push (marketPurchases h) (market_purchase_tokens burnData / Num 1000000),
            permImpact := push (permImpact h) (permanent_impact_st st * Num 100),
            tempImpact := push (tempImpact h) (temporary_price_impact st * Num 100),
            usdc_distributed :=
              push (usdc_distributed h) (usdc_to_stakers burnData / Num 1000000) \<rparr>;
          h2 = (if v = V1
                then h1 \<lparr>
                  auto_compound_amounts :=
                    push (auto_compound_amounts h1) (auto_compound_usd burnData / Num 1000000),
                  buyback_amounts := push (buyback_amounts h1) (Num 0) \<rparr>
                else h1 \<lparr>
                  buyback_amounts :=
                    push (buyback_amounts h1) (buyback_usd burnData / Num 1000000),
                  auto_compound_amounts := push (auto_compound_amounts h1) (Num 0) \<rparr>)
      in h2 \<lparr>
            treasury_inflows :=
              push (treasury_inflows h2) (woofi_treasury_inflow_usd distributionData / Num 1000000),
            woofi_fees_generated :=
              push (woofi_fees_generated h2) (total_gross_woofi_fees feeData / Num 1000000),
            woox_fees_generated :=
              push (woox_fees_generated h2) (total_woox_fees feeData / Num 1000000),
            woox_treasury_inflows :=
              push (woox_treasury_inflows h2) (woox_treasury_inflow feeData / Num 1000000),
            staker_fees_received :=
              push (staker_fees_received h2) (staker_fees_total distributionData / Num 1000000),
            treasury_fees_received :=
              push (treasury_fees_received h2)
                (treasury_fees_total distributionData / Num 1000000),
            orderly_fees_received :=
              push (orderly_fees_received h2)
                (orderly_fees_total distributionData / Num 1000000),
            buyback_fees_received :=
              push (buyback_fees_received h2)
                (buyback_fees_total distributionData / Num 1000000),
            treasury_runway_months :=
              push (treasury_runway_months h2) (treasuryRunway st burnData) \<rparr>)"

text \<open>The remaining pushes, which compare with the initial values.\<close>

definition record_analytics ::
  "sim_state \<Rightarrow> initial_values \<Rightarrow> history \<Rightarrow> burn_data \<Rightarrow> history" where
  "record_analytics st iv h burnData =
     h \<lparr> price_change_pct :=
           push (price_change_pct h) ((woo_price st - iv_price iv) / iv_price iv * Num 100),
         supply_reduction_pct :=
           push (supply_reduction_pct h)
             (cumulative_tokens_burned st / iv_circulating_supply iv * Num 100),
         cumulative_burned :=
           push (cumulative_burned h) (cumulative_tokens_burned st / Num 1000000),
         staking_ratio :=
           push (staking_ratio h) (total_staked_woo st / total_supply st * Num 100),
         treasury_runway := push (treasury_runway h) (treasuryRunway st burnData) \<rparr>"

text \<open>
  The loop over the trailing window,
  \<^verbatim>\<open>for (i = startIndex; i < endIndex; i++) acc += (arr[i] || 0) * 1e6\<close>.
\<close>

definition window_sum :: "jsnum list \<Rightarrow> nat \<Rightarrow> nat \<Rightarrow> jsnum" where
  "window_sum arr startIndex endIndex =
     foldl (\<lambda>acc i. acc + or_zero (js_nth arr i) * Num 1000000) (Num 0)
       [startIndex ..< endIndex]"

text \<open>
  \<^verbatim>\<open>den > 0 ? marketCap / den : Infinity\<close>, and what is stored for it,
  \<^verbatim>\<open>isFinite(r) ? r : null\<close>.
\<close>

definition ratio_of :: "jsnum \<Rightarrow> jsnum \<Rightarrow> jsnum" where
  "ratio_of marketCap den = (if den > Num 0 then marketCap / den else PInf)"

definition stored :: "jsnum \<Rightarrow> ratio" where
  "stored r = (if isFinite r then Ratio r else Null)"

text \<open>
  \<^verbatim>\<open>arr[k] = x\<close>. The index is \<^verbatim>\<open>yearNumber - 1\<close>, an integer whenever the
  assignment is reached.
\<close>

fun array_set :: "ratio_array \<Rightarrow> jsnum \<Rightarrow> ratio \<Rightarrow> ratio_array" where
  "array_set arr (Num k) x = arr(\<lfloor>k\<rfloor> \<mapsto> x)"
| "array_set arr _ x = arr"

text \<open>
  The trailing window starts at \<^verbatim>\<open>Math.max(0, months.length - 12)\<close> (the subtraction
  of natural numbers stops at \<open>0\<close>); the totals over it are the parts of the
  denominators of the three ratios, taken from the history after this month's pushes.
\<close>

definition window_start :: "history \<Rightarrow> nat" where
  "window_start h = length (months h) - 12"

definition annualUSDC :: "history \<Rightarrow> jsnum" where
  "annualUSDC h = window_sum (usdc_distributed h) (window_start h) (length (months h))"

definition annualBuybackUSD :: "history \<Rightarrow> jsnum" where
  "annualBuybackUSD h = window_sum (buyback_amounts h) (window_start h) (length (months h))"

definition annualAutoCompoundUSD :: "history \<Rightarrow> jsnum" where
  "annualAutoCompoundUSD h =
     window_sum (auto_compound_amounts h) (window_start h) (length (months h))"

definition annualTokensBurned :: "history \<Rightarrow> jsnum" where
  "annualTokensBurned h = window_sum (monthlyBurned h) (window_start h) (length (months h))"

definition totalAnnualValue :: "sim_state \<Rightarrow> history \<Rightarrow> jsnum" where
  "totalAnnualValue st h =
     annualUSDC h + annualTokensBurned h * woo_price st + annualAutoCompoundUSD h"

definition totalAnnualValueUSD :: "history \<Rightarrow> jsnum" where
  "totalAnnualValueUSD h = annualUSDC h + annualBuybackUSD h"

definition totalAnnualValueMarket :: "sim_state \<Rightarrow> history \<Rightarrow> jsnum" where
  "totalAnnualValueMarket st h = annualUSDC h + annualTokensBurned h * woo_price st"

definition marketCap :: "sim_state \<Rightarrow> jsnum" where
  "marketCap st = circulating_supply st * woo_price st"

definition annual_ratios :: "model_version \<Rightarrow> sim_state \<Rightarrow> history \<Rightarrow> sim_state" where
  "annual_ratios v st h =
     (if js_rem (month st + Num 1) (Num 12) = Num 0
      then
        (let yearNumber = Math_floor ((month st + Num 1) / Num 12) in
         if v = V1
         then st \<lparr> annual_pr_ratios :=
                array_set (annual_pr_ratios st) (yearNumber - Num 1)
                  (stored (ratio_of (marketCap st) (totalAnnualValue st h))) \<rparr>
         else st \<lparr>
                annual_pv_ratios_usd :=
                  array_set (annual_pv_ratios_usd st) (yearNumber - Num 1)
                    (stored (ratio_of (marketCap st) (totalAnnualValueUSD h))),
                annual_pv_ratios_market :=
                  array_set (annual_pv_ratios_market st) (yearNumber - Num 1)
                    (stored (ratio_of (marketCap st) (totalAnnualValueMarket st h))) \<rparr>)
      else st)"

text \<open>
  \<^verbatim>\<open>recordHistory\<close>. It throws (and rethrows from its own handler) when the state has
  no \<^verbatim>\<open>history\<close>, before any push, or no \<^verbatim>\<open>initial_values\<close>, after the pushes made
  until then. The result carries the instance as the exception leaves it.
\<close>

definition recordHistory ::
  "sim \<Rightarrow> burn_data \<Rightarrow> distribution_data \<Rightarrow> fee_data \<Rightarrow> (js_error \<times> sim) + sim" where
  "recordHistory this burnData distributionData feeData =
     (let st = simState this in
      case history st of
        None \<Rightarrow> Inl (TypeError, this)
      | Some h \<Rightarrow>
          (let h1 = record_flows (modelVersion this) st h burnData distributionData feeData in
           case initial_values st of
             None \<Rightarrow> Inl (TypeError, this \<lparr> simState := st \<lparr> history := Some h1 \<rparr> \<rparr>)
           | Some iv \<Rightarrow>
               (let h2 = record_analytics st iv h1 burnData in
                Inr (this \<lparr> simState :=
                  annual_ratios (modelVersion this) (st \<lparr> history := Some h2 \<rparr>) h2 \<rparr>))))"

section \<open>One month\<close>

text \<open>
  The body of the \<^verbatim>\<open>try\<close> block of \<^verbatim>\<open>simulationStep\<close>, up to the increment of the
  month. Only \<^verbatim>\<open>recordHistory\<close> can throw.
\<close>

definition try_block :: "sim \<Rightarrow> (js_error \<times> sim) + sim" where
  "try_block this =
     (let feeData = calculateFees this;
          distributionData = distributeFees this feeData;
          burnData = calculateBuybackAndBurn this distributionData;
          priceImpactData = calculatePriceImpact this burnData;
          this1 = updateIntermediateVariables this feeData distributionData burnData
                    priceImpactData;
          this2 = updateTreasury this1 distributionData burnData;
          this3 = updateStakerPositions this2 burnData;
          this4 = updateSupply this3 burnData;
          this5 = updatePrice this4 priceImpactData
      in case recordHistory this5 burnData distributionData feeData of
           Inl err \<Rightarrow> Inl err
         | Inr this6 \<Rightarrow>
             Inr (this6 \<lparr> simState := (simState this6) \<lparr>
                    month := month (simState this6) + Num 1 \<rparr> \<rparr>))"

text \<open>
  \<^verbatim>\<open>simulationStep\<close>: the returned flag (\<open>True\<close> to continue) and the instance
  afterwards. The \<^verbatim>\<open>catch\<close> clause logs and returns \<open>false\<close>.
\<close>

definition simulationStep :: "sim \<Rightarrow> bool \<times> sim" where
  "simulationStep this =
     (let currentMonth = month (simState this) in
      if currentMonth \<ge> simulation_months (simParams this) then (False, this)
      else if modelVersion this = V1 \<and> woofi_treasury_balance (simState this) \<le> Num 0
      then (False, this)
      else
        (case try_block this of
           Inl err \<Rightarrow> (False, snd err)
         | Inr this' \<Rightarrow> (True, this')))"

text \<open>The instance after \<open>n\<close> calls of \<^verbatim>\<open>simulationStep\<close>.\<close>

fun steps :: "nat \<Rightarrow> sim \<Rightarrow> sim" where
  "steps 0 this = this"
| "steps (Suc n) this = steps n (snd (simulationStep this))"

section \<open>Derived notions used in the statements\<close>

text \<open>What one month computes from the instance it starts from.\<close>

definition month_distribution :: "sim \<Rightarrow> distribution_data" where
  "month_distribution this = distributeFees this (calculateFees this)"

definition month_burn :: "sim \<Rightarrow> burn_data" where
  "month_burn this = calculateBuybackAndBurn this (month_distribution this)"

definition month_price_impact :: "sim \<Rightarrow> price_impact_data" where
  "month_price_impact this = calculatePriceImpact this (month_burn this)"

text \<open>\<^verbatim>\<open>buying_pressure_usd\<close> of \<^verbatim>\<open>calculatePriceImpact\<close> for the month.\<close>

definition buying_pressure_usd :: "sim \<Rightarrow> jsnum" where
  "buying_pressure_usd this =
     (if modelVersion this = V1 then auto_compound_usd (month_burn this)
      else buyback_usd (month_burn this))"

text \<open>The instance after the five state updates of the month, before the history is
  recorded.\<close>

definition after_updates :: "sim \<Rightarrow> sim" where
  "after_updates this =
     updatePrice
       (updateSupply
          (updateStakerPositions
             (updateTreasury
                (updateIntermediateVariables this (calculateFees this)
                   (month_distribution this) (month_burn this) (month_price_impact this))
                (month_distribution this) (month_burn this))
             (month_burn this))
          (month_burn this))
       (month_price_impact this)"

text \<open>
  The two tests at the head of \<^verbatim>\<open>simulationStep\<close>: the month is run when neither
  returns.
\<close>

definition month_runs :: "sim \<Rightarrow> bool" where
  "month_runs this =
     (\<not> (month (simState this) \<ge> simulation_months (simParams this)) \<and>
      \<not> (modelVersion this = V1 \<and> woofi_treasury_balance (simState this) \<le> Num 0))"


text \<open>\<^verbatim>\<open>DEFAULT_VALUES\<close> of the configuration file, as parsed control values.\<close>

definition DEFAULT_VALUES :: controls where
  "DEFAULT_VALUES = \<lparr>
     woofiSwapVolume = Some (Num 49.4),
     woofiPerpVolume = Some (Num 11.3),
     wooxVolume = Some (Num 365.9),
     autoCompoundRate = Some (Num 70),
     buybackBurnShare = Some (Num 50),
     stakerShare = Some (Num 30),
     treasuryShare = Some (Num 20),
     wooxStakerBps = Some (Num 0.1),
     affiliateCut = Some (Num 60),
     woofiTradingFeeRate = Some (Num 0.08),
     supplyElasticity = Some (Num 10),
     buyingPressureElasticity = Some (Num 1.5),
     buyingPressureDecay = Some (Num 15),
     simulationDuration = Some (Num 36),
     circulatingSupply = Some (Num 1909.2),
     initialStaked = Some (Num 629.5),
     initialWoofiTreasury = Some (Num 41.8),
     initialWooxTreasury = Some (Num 32.5) \<rparr>"

text \<open>
  The history after the pushes of a month that starts from \<open>this\<close> with history
  \<open>h\<close> and initial values \<open>iv\<close>.
\<close>

definition month_history :: "sim \<Rightarrow> history \<Rightarrow> initial_values \<Rightarrow> history" where
  "month_history this h iv =
     record_analytics (simState (after_updates this)) iv
       (record_flows (modelVersion this) (simState (after_updates this)) h (month_burn this)
          (month_distribution this) (calculateFees this))
       (month_burn this)"

text \<open>The instances that \<^verbatim>\<open>initialize\<close> makes of the default configuration.\<close>

definition default_v2 :: sim where
  "default_v2 = projr (initialize constructor DEFAULT_VALUES V2)"

definition default_v1 :: sim where
  "default_v1 = projr (initialize constructor DEFAULT_VALUES V1)"

text \<open>The bounds that \<^verbatim>\<open>updatePrice\<close> clamps the price to.\<close>

definition price_in_range :: "jsnum \<Rightarrow> bool" where
  "price_in_range x = (Num 0.0001 \<le> x \<and> x \<le> Num 1000)"

text \<open>
  The invariant behind the price bound: the price and every recorded price are in range,
  and the state has its history and initial values.
\<close>

definition price_inv :: "sim \<Rightarrow> bool" where
  "price_inv this =
     (price_in_range (woo_price (simState this)) \<and>
      (\<exists>h. history (simState this) = Some h \<and> list_all price_in_range (price h)) \<and>
      (\<exists>iv. initial_values (simState this) = Some iv))"

text \<open>
  A Variant B instance with no buyback allocation (the stakers get the 50 percent of the
  default buyback share), and the same with a decay control that does not parse.
\<close>

definition no_buyback :: sim where
  "no_buyback = projr (initialize constructor
     (DEFAULT_VALUES \<lparr> buybackBurnShare := Some (Num 0), stakerShare := Some (Num 80) \<rparr>) V2)"


text \<open>
  Instances that \<^verbatim>\<open>initialize\<close> makes of configurations with one control changed: a
  buyback share that is not a number, no circulating supply, and (Variant A) a negative
  secondary-venue volume.
\<close>

definition nan_buyback :: sim where
  "nan_buyback = projr (initialize constructor
     (DEFAULT_VALUES \<lparr> buybackBurnShare := Some NaN \<rparr>) V2)"

definition no_circulating :: sim where
  "no_circulating = projr (initialize constructor
     (DEFAULT_VALUES \<lparr> circulatingSupply := Some (Num 0) \<rparr>) V2)"

definition negative_volume :: sim where
  "negative_volume = projr (initialize constructor
     (DEFAULT_VALUES \<lparr> wooxVolume := Some (Num (- 100000)) \<rparr>) V1)"

text \<open>The controls that \<^verbatim>\<open>initialize\<close> reads under the chosen variant are all there.\<close>

definition controls_present :: "controls \<Rightarrow> model_version \<Rightarrow> bool" where
  "controls_present c v =
     (woofiSwapVolume c \<noteq> None \<and> woofiPerpVolume c \<noteq> None \<and> wooxVolume c \<noteq> None \<and>
      (if v = V1 then autoCompoundRate c \<noteq> None
       else buybackBurnShare c \<noteq> None \<and> stakerShare c \<noteq> None \<and>
            treasuryShare c \<noteq> None \<and> wooxStakerBps c \<noteq> None) \<and>
      affiliateCut c \<noteq> None \<and> woofiTradingFeeRate c \<noteq> None \<and>
      supplyElasticity c \<noteq> None \<and> buyingPressureElasticity c \<noteq> None \<and>
      buyingPressureDecay c \<noteq> None \<and> simulationDuration c \<noteq> None \<and>
      circulatingSupply c \<noteq> None \<and> initialStaked c \<noteq> None \<and>
      initialWoofiTreasury c \<noteq> None \<and> initialWooxTreasury c \<noteq> None)"

text \<open>
  The state of a run: the month counter is the number of months recorded in the history,
  the arrays that the annual ratios read have one entry for each of them, and every
  annual ratio stored so far is \<^verbatim>\<open>null\<close> or a finite number.
\<close>

definition finite_ratios :: "ratio_array \<Rightarrow> bool" where
  "finite_ratios arr = (\<forall>r \<in> ran arr. r = Null \<or> isFinite (ratio_value r))"

definition records_inv :: "sim \<Rightarrow> bool" where
  "records_inv this =
     (\<exists>h iv. history (simState this) = Some h \<and> initial_values (simState this) = Some iv \<and>
        month (simState this) = Num (of_nat (length (months h))) \<and>
        length (usdc_distributed h) = length (months h) \<and>
        length (buyback_amounts h) = length (months h) \<and>
        length (auto_compound_amounts h) = length (months h) \<and>
        length (monthlyBurned h) = length (months h) \<and>
        finite_ratios (annual_pr_ratios (simState this)) \<and>
        finite_ratios (annual_pv_ratios_usd (simState this)) \<and>
        finite_ratios (annual_pv_ratios_market (simState this)))"

text \<open>
  The annual ratio in the words of the specification. The total of a recorded flow over
  the trailing window is the sum of its last twelve entries, each in millions (an entry
  that is not a number counts as \<open>0\<close>); the value stored for a market capitalisation
  and a denominator is their quotient when the denominator is positive and the quotient
  finite, and the undefined marker otherwise.
\<close>

definition trailing_window_total :: "jsnum list \<Rightarrow> jsnum" where
  "trailing_window_total xs =
     foldl (\<lambda>acc x. acc + (if isNaN x then Num 0 else x) * Num 1000000) (Num 0)
       (drop (length xs - 12) xs)"

definition stored_ratio :: "jsnum \<Rightarrow> jsnum \<Rightarrow> ratio" where
  "stored_ratio cap den =
     (if den > Num 0 \<and> isFinite (cap / den) then Ratio (cap / den) else Null)"

text \<open>
  The months of the run of \<open>no_buyback\<close>: nothing is bought or burned, the price and
  the supply stay, and each month records the same distribution to the stakers.
\<close>

definition steady :: "nat \<Rightarrow> sim \<Rightarrow> bool" where
  "steady k this =
     (modelVersion this = V2 \<and> simParams this = simParams no_buyback \<and>
      month (simState this) = Num (of_nat k) \<and>
      woo_price (simState this) = Num 0.065 \<and>
      circulating_supply (simState this) = Num 1909200000 \<and>
      temporary_price_impact (simState this) = Num 0 \<and>
      initial_values (simState this) \<noteq> None \<and>
      (\<exists>h. history (simState this) = Some h \<and>
         usdc_distributed h = replicate k (usdc_to_stakers (month_burn no_buyback) / Num 1000000) \<and>
         buyback_amounts h = replicate k (Num 0) \<and>
         monthlyBurned h = replicate k (Num 0)))"

section \<open>Rounding to doubles\<close>

text \<open>
  The numbers of the code are binary64 doubles: 53 significant bits, rounded to the
  nearest double with ties to the even one, spaced by \<open>2 powr (- 1074)\<close> below
  \<open>2 powr (- 1022)\<close>, and an infinity from \<open>2 ^ 1024 - 2 ^ 970\<close> on.
  \<open>rne\<close> rounds a real to the nearest integer, ties to even; \<open>fl64\<close> rounds
  it to the nearest double, \<open>round64\<close> with the overflow.
\<close>

definition rne :: "real \<Rightarrow> int" where
  "rne x =
     (if x - of_int \<lfloor>x\<rfloor> < 1 / 2 then \<lfloor>x\<rfloor>
      else if 1 / 2 < x - of_int \<lfloor>x\<rfloor> then \<lfloor>x\<rfloor> + 1
      else if even \<lfloor>x\<rfloor> then \<lfloor>x\<rfloor> else \<lfloor>x\<rfloor> + 1)"

definition ulp_exponent :: "real \<Rightarrow> int" where
  "ulp_exponent x = max \<lfloor>log 2 \<bar>x\<bar>\<rfloor> (- 1022) - 52"

definition fl64 :: "real \<Rightarrow> real" where
  "fl64 x =
     (if x = 0 then 0
      else of_int (rne (x / 2 powr of_int (ulp_exponent x))) * 2 powr of_int (ulp_exponent x))"

definition round64 :: "real \<Rightarrow> jsnum" where
  "round64 x =
     (if 2 ^ 1024 - 2 ^ 970 \<le> \<bar>x\<bar> then (if 0 < x then PInf else NInf)
      else Num (fl64 x))"

text \<open>\<^verbatim>\<open>a + b\<close> and \<^verbatim>\<open>a - b\<close> on doubles.\<close>

fun plus64 :: "jsnum \<Rightarrow> jsnum \<Rightarrow> jsnum" where
  "plus64 (Num a) (Num b) = round64 (a + b)"
| "plus64 a b = a + b"

definition minus64 :: "jsnum \<Rightarrow> jsnum \<Rightarrow> jsnum" where
  "minus64 a b = plus64 a (- b)"

text \<open>\<^verbatim>\<open>updateSupply\<close> with the three assignments rounded.\<close>

definition updateSupply64 :: "sim \<Rightarrow> burn_data \<Rightarrow> sim" where
  "updateSupply64 this burnData =
     (if tokens_burned burnData < Num 0 \<or> \<not> isFinite (tokens_burned burnData) \<or>
         market_purchase_tokens burnData < Num 0 \<or>
         \<not> isFinite (market_purchase_tokens burnData)
      then this
      else
        (let st = simState this in
         this \<lparr> simState := st \<lparr>
           total_supply := minus64 (total_supply st) (tokens_burned burnData),
           circulating_supply :=
             minus64 (circulating_supply st) (market_purchase_tokens burnData),
           cumulative_tokens_burned :=
             plus64 (cumulative_tokens_burned st) (tokens_burned burnData) \<rparr> \<rparr>))"

text \<open>
  The burn of the first month of the default Variant B run as the code computes it: the
  double \<open>99544.61538461538\<close> for the buyback of 6470.4 USD at the price 0.065.
\<close>

definition month1_burn64 :: burn_data where
  "month1_burn64 = (month_burn default_v2) \<lparr>
     market_purchase_tokens := Num (855081735139643 / 2 ^ 33),
     tokens_burned := Num (855081735139643 / 2 ^ 33) \<rparr>"

text \<open>
  The tokens bought and burned in the first three months of the default Variant A run as
  the code computes them, the doubles \<open>1293628.4307692307\<close>,
  \<open>1284534.6104579107\<close> and \<open>1275232.3683879585\<close> (the treasury covers each
  purchase), and the supply after each of these months by the rounded
  \<^verbatim>\<open>updateSupply\<close>; the other fields stay those of the initial state.
\<close>

definition burn64_V1 :: "real \<Rightarrow> burn_data" where
  "burn64_V1 b = zero_burn_V1 \<lparr> market_purchase_tokens := Num b, tokens_burned := Num b \<rparr>"

definition default_v1_month1_64 :: sim where
  "default_v1_month1_64 = updateSupply64 default_v1 (burn64_V1 (2778045901664823 / 2 ^ 31))"

definition default_v1_month2_64 :: sim where
  "default_v1_month2_64 =
     updateSupply64 default_v1_month1_64 (burn64_V1 (2758517071248413 / 2 ^ 31))"

definition default_v1_month3_64 :: sim where
  "default_v1_month3_64 =
     updateSupply64 default_v1_month2_64 (burn64_V1 (2738540658513453 / 2 ^ 31))"

section \<open>Auxiliary lemmas\<close>

subsection \<open>Numbers\<close>

lemma add_Num0 [simp]: "x + Num 0 = x"
  by (cases x) simp_all

lemma isFinite_iff: "isFinite x \<longleftrightarrow> (\<exists>r. x = Num r)"
  by (cases x) simp_all

subsection \<open>What the stages leave alone\<close>

lemma version_updateIntermediateVariables [simp]:
  "modelVersion (updateIntermediateVariables this fd dd bd pid) = modelVersion this"
  "simParams (updateIntermediateVariables this fd dd bd pid) = simParams this"
  by (simp_all add: updateIntermediateVariables_def Let_def)

lemma version_updateTreasury [simp]:
  "modelVersion (updateTreasury this dd bd) = modelVersion this"
  "simParams (updateTreasury this dd bd) = simParams this"
  by (simp_all add: updateTreasury_def updateTreasuryV1_def updateTreasuryV2_def Let_def)

lemma version_updateStakerPositions [simp]:
  "modelVersion (updateStakerPositions this bd) = modelVersion this"
  "simParams (updateStakerPositions this bd) = simParams this"
  by (simp_all add: updateStakerPositions_def updateStakerPositionsV1_def
      updateStakerPositionsV2_def)

lemma version_updateSupply [simp]:
  "modelVersion (updateSupply this bd) = modelVersion this"
  "simParams (updateSupply this bd) = simParams this"
  by (simp_all add: updateSupply_def Let_def)

lemma version_updatePrice [simp]:
  "modelVersion (updatePrice this pid) = modelVersion this"
  "simParams (updatePrice this pid) = simParams this"
  by (simp_all add: updatePrice_def Let_def)

lemma try_block_after_updates:
  "try_block this =
     (case recordHistory (after_updates this) (month_burn this) (month_distribution this)
             (calculateFees this) of
        Inl err \<Rightarrow> Inl err
      | Inr this6 \<Rightarrow>
          Inr (this6 \<lparr> simState := (simState this6) \<lparr>
                 month := month (simState this6) + Num 1 \<rparr> \<rparr>))"
  by (simp add: try_block_def after_updates_def month_burn_def month_distribution_def
      month_price_impact_def Let_def)

lemma simulationStep_cases:
  "simulationStep this =
     (if month_runs this then
        (case try_block this of Inl err \<Rightarrow> (False, snd err) | Inr this' \<Rightarrow> (True, this'))
      else (False, this))"
  by (auto simp add: simulationStep_def month_runs_def Let_def)

lemmas stage_defs =
  updateIntermediateVariables_def updateTreasury_def updateTreasuryV1_def
  updateTreasuryV2_def updateStakerPositions_def updateStakerPositionsV1_def
  updateStakerPositionsV2_def updateSupply_def updatePrice_def

lemma after_updates_version [simp]:
  "modelVersion (after_updates this) = modelVersion this"
  "simParams (after_updates this) = simParams this"
  by (simp_all add: after_updates_def)

lemma after_updates_frame:
  "month (simState (after_updates this)) = month (simState this)"
  "max_supply (simState (after_updates this)) = max_supply (simState this)"
  "history (simState (after_updates this)) = history (simState this)"
  "initial_values (simState (after_updates this)) = initial_values (simState this)"
  "annual_pr_ratios (simState (after_updates this)) = annual_pr_ratios (simState this)"
  "annual_pv_ratios_usd (simState (after_updates this)) = annual_pv_ratios_usd (simState this)"
  "annual_pv_ratios_market (simState (after_updates this)) =
     annual_pv_ratios_market (simState this)"
  by (simp_all add: after_updates_def stage_defs Let_def)

lemma after_updates_supply:
  "total_supply (simState (after_updates this)) =
     total_supply (simState (updateSupply this (month_burn this)))"
  "circulating_supply (simState (after_updates this)) =
     circulating_supply (simState (updateSupply this (month_burn this)))"
  "cumulative_tokens_burned (simState (after_updates this)) =
     cumulative_tokens_burned (simState (updateSupply this (month_burn this)))"
  by (simp_all add: after_updates_def stage_defs Let_def)

lemma after_updates_price:
  "woo_price (simState (after_updates this)) =
     woo_price (simState (updatePrice this (month_price_impact this)))"
  "temporary_price_impact (simState (after_updates this)) =
     temporary_price_impact (simState (updatePrice this (month_price_impact this)))"
  by (simp_all add: after_updates_def stage_defs Let_def)

lemma after_updates_treasury:
  "woofi_treasury_balance (simState (after_updates this)) =
     woofi_treasury_balance
       (simState (updateTreasury this (month_distribution this) (month_burn this)))"
  "woox_treasury_balance (simState (after_updates this)) =
     woox_treasury_balance
       (simState (updateTreasury this (month_distribution this) (month_burn this)))"
  by (simp_all add: after_updates_def stage_defs Let_def)

lemma annual_ratios_frame:
  "month (annual_ratios v st h) = month st"
  "woo_price (annual_ratios v st h) = woo_price st"
  "max_supply (annual_ratios v st h) = max_supply st"
  "total_supply (annual_ratios v st h) = total_supply st"
  "circulating_supply (annual_ratios v st h) = circulating_supply st"
  "total_staked_woo (annual_ratios v st h) = total_staked_woo st"
  "woofi_treasury_balance (annual_ratios v st h) = woofi_treasury_balance st"
  "woox_treasury_balance (annual_ratios v st h) = woox_treasury_balance st"
  "cumulative_tokens_burned (annual_ratios v st h) = cumulative_tokens_burned st"
  "temporary_price_impact (annual_ratios v st h) = temporary_price_impact st"
  "history (annual_ratios v st h) = history st"
  "initial_values (annual_ratios v st h) = initial_values st"
  by (simp_all add: annual_ratios_def Let_def)

subsection \<open>What \<^verbatim>\<open>recordHistory\<close> and a step return\<close>

lemma recordHistory_no_history:
  "history (simState this) = None \<Longrightarrow> recordHistory this bd dd fd = Inl (TypeError, this)"
  by (simp add: recordHistory_def)

lemma recordHistory_no_initial_values:
  "history (simState this) = Some h \<Longrightarrow> initial_values (simState this) = None \<Longrightarrow>
   recordHistory this bd dd fd =
     Inl (TypeError, this \<lparr> simState := (simState this) \<lparr>
       history := Some (record_flows (modelVersion this) (simState this) h bd dd fd) \<rparr> \<rparr>)"
  by (simp add: recordHistory_def Let_def)

lemma recordHistory_recorded:
  "history (simState this) = Some h \<Longrightarrow> initial_values (simState this) = Some iv \<Longrightarrow>
   recordHistory this bd dd fd =
     Inr (this \<lparr> simState :=
       annual_ratios (modelVersion this)
         ((simState this) \<lparr> history := Some (record_analytics (simState this) iv
            (record_flows (modelVersion this) (simState this) h bd dd fd) bd) \<rparr>)
         (record_analytics (simState this) iv
            (record_flows (modelVersion this) (simState this) h bd dd fd) bd) \<rparr>)"
  by (simp add: recordHistory_def Let_def)

lemma recordHistory_result:
  obtains (thrown) e this' where "recordHistory this bd dd fd = Inl (e, this')"
      "\<exists>hs. this' = this \<lparr> simState := (simState this) \<lparr> history := hs \<rparr> \<rparr>"
      "history (simState this) = None \<or> initial_values (simState this) = None"
  | (recorded) h iv this' where "history (simState this) = Some h"
      "initial_values (simState this) = Some iv"
      "recordHistory this bd dd fd = Inr this'"
      "this' = this \<lparr> simState :=
         annual_ratios (modelVersion this)
           ((simState this) \<lparr> history := Some (record_analytics (simState this) iv
              (record_flows (modelVersion this) (simState this) h bd dd fd) bd) \<rparr>)
           (record_analytics (simState this) iv
              (record_flows (modelVersion this) (simState this) h bd dd fd) bd) \<rparr>"
proof (cases "history (simState this)")
  case None
  have "this = this \<lparr> simState := (simState this) \<lparr> history := history (simState this) \<rparr> \<rparr>"
    by simp
  then show ?thesis
    using None thrown [of TypeError this] recordHistory_no_history [OF None]
    by blast
next
  case (Some h)
  show ?thesis
  proof (cases "initial_values (simState this)")
    case None
    then show ?thesis
      using Some thrown recordHistory_no_initial_values [OF Some None]
      by blast
  next
    case (Some iv)
    then show ?thesis
      using \<open>history (simState this) = Some h\<close> recorded
        recordHistory_recorded [OF \<open>history (simState this) = Some h\<close> Some]
      by blast
  qed
qed

lemma simulationStep_result:
  obtains (stopped) "\<not> month_runs this" "simulationStep this = (False, this)"
  | (thrown) hs where "month_runs this"
      "history (simState this) = None \<or> initial_values (simState this) = None"
      "simulationStep this =
         (False, (after_updates this) \<lparr> simState :=
                   (simState (after_updates this)) \<lparr> history := hs \<rparr> \<rparr>)"
  | (completed) h iv where "month_runs this"
      "history (simState this) = Some h" "initial_values (simState this) = Some iv"
      "simulationStep this =
         (True, (after_updates this) \<lparr> simState :=
            (annual_ratios (modelVersion this)
               ((simState (after_updates this)) \<lparr> history := Some (month_history this h iv) \<rparr>)
               (month_history this h iv))
            \<lparr> month := month (simState this) + Num 1 \<rparr> \<rparr>)"
proof (cases "month_runs this")
  case False
  then show ?thesis using stopped by (simp add: simulationStep_cases)
next
  case True
  show ?thesis
  proof (rule recordHistory_result [where this = "after_updates this"
        and bd = "month_burn this" and dd = "month_distribution this"
        and fd = "calculateFees this"], goal_cases)
    case (1 e this')
    then obtain hs where "this' = (after_updates this) \<lparr> simState :=
        (simState (after_updates this)) \<lparr> history := hs \<rparr> \<rparr>"
      by blast
    with 1 True show ?thesis
      using thrown [of hs]
      by (simp add: simulationStep_cases try_block_after_updates after_updates_frame)
  next
    case (2 h iv this')
    with True show ?thesis
      using completed [of h iv]
      by (simp add: simulationStep_cases try_block_after_updates after_updates_frame
          month_history_def annual_ratios_frame)
  qed
qed

lemma step_fields:
  "woo_price (simState (snd (simulationStep this))) =
     (if month_runs this then woo_price (simState (updatePrice this (month_price_impact this)))
      else woo_price (simState this))"
  "temporary_price_impact (simState (snd (simulationStep this))) =
     (if month_runs this
      then temporary_price_impact (simState (updatePrice this (month_price_impact this)))
      else temporary_price_impact (simState this))"
  "total_supply (simState (snd (simulationStep this))) =
     (if month_runs this then total_supply (simState (updateSupply this (month_burn this)))
      else total_supply (simState this))"
  "circulating_supply (simState (snd (simulationStep this))) =
     (if month_runs this then circulating_supply (simState (updateSupply this (month_burn this)))
      else circulating_supply (simState this))"
  "cumulative_tokens_burned (simState (snd (simulationStep this))) =
     (if month_runs this
      then cumulative_tokens_burned (simState (updateSupply this (month_burn this)))
      else cumulative_tokens_burned (simState this))"
  "woofi_treasury_balance (simState (snd (simulationStep this))) =
     (if month_runs this
      then woofi_treasury_balance
             (simState (updateTreasury this (month_distribution this) (month_burn this)))
      else woofi_treasury_balance (simState this))"
  "woox_treasury_balance (simState (snd (simulationStep this))) =
     (if month_runs this
      then woox_treasury_balance
             (simState (updateTreasury this (month_distribution this) (month_burn this)))
      else woox_treasury_balance (simState this))"
  "max_supply (simState (snd (simulationStep this))) = max_supply (simState this)"
  "initial_values (simState (snd (simulationStep this))) = initial_values (simState this)"
  by (cases this rule: simulationStep_result;
      simp add: annual_ratios_frame after_updates_frame after_updates_supply
        after_updates_price after_updates_treasury)+

lemma step_month:
  "month (simState (snd (simulationStep this))) =
     (if fst (simulationStep this) then month (simState this) + Num 1
      else month (simState this))"
  by (cases this rule: simulationStep_result) (simp_all add: after_updates_frame)

lemma step_version [simp]:
  "modelVersion (snd (simulationStep this)) = modelVersion this"
  "simParams (snd (simulationStep this)) = simParams this"
  by (cases this rule: simulationStep_result; simp)+

lemma steps_Suc: "steps (Suc n) this = snd (simulationStep (steps n this))"
  by (induction n arbitrary: this) simp_all

lemma steps_version [simp]:
  "modelVersion (steps n this) = modelVersion this"
  "simParams (steps n this) = simParams this"
  by (induction n arbitrary: this) simp_all

subsection \<open>The state after \<^verbatim>\<open>initialize\<close>\<close>

lemma initialize_Inr:
  assumes "initialize this0 c v = Inr this"
  obtains p st where "read_params c v = Some p" "read_state c p = Some st"
    "modelVersion this = v" "simParams this = p" "simState this = st"
  using assms
  by (auto simp add: initialize_def Let_def split: option.splits)

lemma read_state_Some:
  assumes "read_state c p = Some st"
  shows "month st = Num 0" "woo_price st = Num 0.065" "max_supply st = Num 3000000000"
    "total_supply st = Num 2209243570" "cumulative_tokens_burned st = Num 0"
    "temporary_price_impact st = Num 0"
    "circulating_supply st = initial_circulating_supply p"
    "history st = Some empty_history" "\<exists>iv. initial_values st = Some iv"
  using assms
  by (auto simp add: read_state_def INITIAL_STATE_def split: Option.bind_splits)

lemma read_params_Some:
  assumes "read_params c v = Some p"
  obtains x where "circulatingSupply c = Some x"
    "initial_circulating_supply p = x * Num 1000000"
  using assms
  by (auto simp add: read_params_def split: Option.bind_splits model_version.splits)

subsection \<open>Supply\<close>

lemma Math_min_Num:
  assumes "Math_min (Num m) t = Num b"
  shows "b \<le> m"
  using assms by (cases t) (auto split: if_splits)

lemma month_burn_le:
  assumes "tokens_burned (month_burn this) = Num b"
    and "market_purchase_tokens (month_burn this) = Num m"
  shows "b \<le> m"
proof (cases "modelVersion this = V1")
  case True
  show ?thesis
  proof (cases "month_burn this = zero_burn_V1")
    case True
    with assms show ?thesis by (simp add: zero_burn_V1_def)
  next
    case False
    with True assms have "Math_min (Num m) (woofi_treasury_balance (simState this)) = Num b"
      by (auto simp add: month_burn_def calculateBuybackAndBurn_def
          calculateAutoCompoundAndBurn_def Let_def split: if_splits)
    then show ?thesis by (rule Math_min_Num)
  qed
next
  case False
  with assms show ?thesis
    by (auto simp add: month_burn_def calculateBuybackAndBurn_def
        calculateBuybackAndBurnV2_def zero_burn_V2_def Let_def split: if_splits)
qed

lemma updateSupply_supply:
  assumes "total_supply (simState this) = Num T"
    and "circulating_supply (simState this) = Num C"
  shows "\<exists>b m. 0 \<le> b \<and> b \<le> m \<and>
           total_supply (simState (updateSupply this (month_burn this))) = Num (T - b) \<and>
           circulating_supply (simState (updateSupply this (month_burn this))) = Num (C - m)"
proof (cases "tokens_burned (month_burn this) < Num 0 \<or>
    \<not> isFinite (tokens_burned (month_burn this)) \<or>
    market_purchase_tokens (month_burn this) < Num 0 \<or>
    \<not> isFinite (market_purchase_tokens (month_burn this))")
  case True
  then have "updateSupply this (month_burn this) = this"
    by (simp add: updateSupply_def)
  with assms show ?thesis
    by (intro exI [of _ 0]) simp
next
  case False
  then obtain b m where bm: "tokens_burned (month_burn this) = Num b"
    "market_purchase_tokens (month_burn this) = Num m" "0 \<le> b"
    by (auto simp add: isFinite_iff)
  from month_burn_le [OF bm(1,2)] have "b \<le> m" .
  with bm assms False show ?thesis
    by (intro exI [of _ b] exI [of _ m]) (simp add: updateSupply_def Let_def minus_jsnum_def)
qed

lemma step_supply:
  assumes "total_supply (simState this) = Num T"
    and "circulating_supply (simState this) = Num C"
  shows "\<exists>b m. 0 \<le> b \<and> b \<le> m \<and>
           total_supply (simState (snd (simulationStep this))) = Num (T - b) \<and>
           circulating_supply (simState (snd (simulationStep this))) = Num (C - m)"
proof (cases "month_runs this")
  case True
  then show ?thesis
    using updateSupply_supply [OF assms] by (simp add: step_fields)
next
  case False
  with assms show ?thesis
    by (intro exI [of _ 0]) (simp add: step_fields)
qed

lemma steps_max_supply [simp]:
  "max_supply (simState (steps n this)) = max_supply (simState this)"
  by (induction n arbitrary: this) (simp_all add: step_fields)

lemma steps_supply:
  assumes "total_supply (simState this) = Num T"
    and "circulating_supply (simState this) = Num C"
  shows "\<exists>b m. 0 \<le> b \<and> b \<le> m \<and>
           total_supply (simState (steps n this)) = Num (T - b) \<and>
           circulating_supply (simState (steps n this)) = Num (C - m)"
proof (induction n)
  case 0
  show ?case using assms by (intro exI [of _ 0]) simp
next
  case (Suc n)
  then obtain b m where bm: "0 \<le> b" "b \<le> m"
    "total_supply (simState (steps n this)) = Num (T - b)"
    "circulating_supply (simState (steps n this)) = Num (C - m)"
    by blast
  from step_supply [OF bm(3,4)] obtain b' m' where "0 \<le> b'" "b' \<le> m'"
    "total_supply (simState (steps (Suc n) this)) = Num (T - b - b')"
    "circulating_supply (simState (steps (Suc n) this)) = Num (C - m - m')"
    unfolding steps_Suc by blast
  with bm(1,2) show ?case
    by (intro exI [of _ "b + b'"] exI [of _ "m + m'"]) (simp add: algebra_simps)
qed

subsection \<open>Price\<close>

lemma clamp_range:
  "x \<noteq> NaN \<Longrightarrow> price_in_range (Math_max (Num 0.0001) (Math_min (Num 1000) x))"
  by (cases x) (auto simp add: price_in_range_def)

lemma price_in_range_Num: "price_in_range x \<Longrightarrow> \<exists>p. x = Num p"
  by (cases x) (auto simp add: price_in_range_def)

lemma updatePrice_price:
  "woo_price (simState (updatePrice this pid)) =
     (if isFinite (price_change_multiplier pid) \<and> price_change_multiplier pid > Num 0
      then Math_max (Num 0.0001)
             (Math_min (Num 1000) (woo_price (simState this) * price_change_multiplier pid))
      else woo_price (simState this))"
  by (cases "price_change_multiplier pid") (auto simp add: updatePrice_def Let_def)

lemma updatePrice_range:
  assumes "price_in_range (woo_price (simState this))"
  shows "price_in_range (woo_price (simState (updatePrice this pid)))"
proof -
  from assms obtain p where p: "woo_price (simState this) = Num p"
    by (auto dest: price_in_range_Num)
  show ?thesis
  proof (cases "isFinite (price_change_multiplier pid) \<and> price_change_multiplier pid > Num 0")
    case True
    then obtain m where "price_change_multiplier pid = Num m"
      by (auto simp add: isFinite_iff)
    with p have "woo_price (simState this) * price_change_multiplier pid \<noteq> NaN"
      by simp
    from clamp_range [OF this] show ?thesis
      unfolding updatePrice_price if_P [OF True] .
  next
    case False
    from assms show ?thesis
      unfolding updatePrice_price if_not_P [OF False] .
  qed
qed

lemma month_history_price:
  "price (month_history this h iv) = price h @ [woo_price (simState (after_updates this))]"
  by (simp add: month_history_def record_analytics_def record_flows_def Let_def push_def)

lemma step_price_inv:
  assumes "price_inv this"
  shows "price_inv (snd (simulationStep this))"
proof (cases this rule: simulationStep_result)
  case stopped
  with assms show ?thesis by simp
next
  case (thrown hs)
  with assms show ?thesis by (auto simp add: price_inv_def)
next
  case (completed h iv)
  from assms have "price_in_range (woo_price (simState (after_updates this)))"
    by (simp add: price_inv_def after_updates_price updatePrice_range)
  with completed assms show ?thesis
    by (simp add: price_inv_def annual_ratios_frame month_history_price after_updates_frame)
qed

lemma steps_price_inv: "price_inv this \<Longrightarrow> price_inv (steps n this)"
  by (induction n arbitrary: this) (simp_all add: step_price_inv)

lemma initialize_price_inv:
  assumes "initialize this0 c v = Inr this"
  shows "price_inv this"
proof -
  from assms obtain p st where st: "read_state c p = Some st" "simState this = st"
    by (rule initialize_Inr)
  from read_state_Some [OF st(1)] st(2) show ?thesis
    by (auto simp add: price_inv_def price_in_range_def empty_history_def)
qed

subsection \<open>Temporary impact\<close>




lemma times_Num1 [simp]: "x * Num 1 = x"
  by (cases x) simp_all



lemma updatePrice_temporary:
  "temporary_price_impact (simState (updatePrice this pid)) =
     (if isFinite (price_change_multiplier pid) \<and> price_change_multiplier pid > Num 0
      then total_temporary_impact pid
      else temporary_price_impact (simState this))"
  by (cases "price_change_multiplier pid") (auto simp add: updatePrice_def Let_def)

subsection \<open>Evaluation of concrete instances\<close>

lemmas month_eval =
  month_price_impact_def month_burn_def month_distribution_def calculateFees_def
  distributeFees_def distributeFeesV1_def distributeFeesV2_def calculateBuybackAndBurn_def
  calculateAutoCompoundAndBurn_def calculateBuybackAndBurnV2_def calculatePriceImpact_def
  price_change_multiplier_def buying_pressure_usd_def month_runs_def zero_burn_V1_def
  zero_burn_V2_def minus_jsnum_def Let_def

lemmas init_eval =
  initialize_def read_params_def read_state_def DEFAULT_VALUES_def INITIAL_STATE_def
  FIXED_woox_total_fee_rate_def FIXED_woofi_staker_share_def FIXED_woox_staker_bps_reward_def
  constructor_def empty_history_def Let_def

lemma step_continues:
  assumes "month_runs this" "history (simState this) \<noteq> None"
    "initial_values (simState this) \<noteq> None"
  shows "fst (simulationStep this)"
  using assms by (cases this rule: simulationStep_result) auto

lemma no_buyback_params:
  "modelVersion no_buyback = V2"
  "simParams no_buyback = \<lparr>
       monthly_woofi_swap_volume = Num 1482000000,
       monthly_woofi_perp_volume = Num 339000000,
       monthly_woox_volume = Num 10977000000,
       woofi_staker_share = Num 0.8,
       auto_compound_adoption_rate = NaN,
       woox_staker_bps = Num 0.00001,
       buyback_burn_share = Num 0,
       staker_share = Num 0.8,
       treasury_share = Num 0.2,
       affiliate_share = Num 0.6,
       woofi_fee_rate = Num 0.000008,
       supply_elasticity = Num 10,
       buying_pressure_elasticity = Num 1.5,
       buying_pressure_decay = Num 0.15,
       simulation_months = Num 36,
       initial_circulating_supply = Num 1909200000,
       woox_total_fee_rate = Num 0.0001,
       woox_staker_bps_reward = Num 0.00001 \<rparr>"
  by (simp_all add: no_buyback_def init_eval)

lemma no_buyback_state:
  "month (simState no_buyback) = Num 0"
  "woo_price (simState no_buyback) = Num 0.065"
  "circulating_supply (simState no_buyback) = Num 1909200000"
  "history (simState no_buyback) \<noteq> None"
  "initial_values (simState no_buyback) \<noteq> None"
  by (simp_all add: no_buyback_def init_eval)

subsection \<open>Annual ratios\<close>

lemma real_div_mod_12:
  "real n - 12 * real (n div 12) = real (n mod 12)"
proof -
  have "real n = real (12 * (n div 12) + n mod 12)"
    by simp
  also have "\<dots> = 12 * real (n div 12) + real (n mod 12)"
    by (simp only: of_nat_add of_nat_mult of_nat_numeral)
  finally show ?thesis
    by linarith
qed

lemma rem12:
  "js_rem (Num (of_nat m) + Num 1) (Num 12) = Num 0 \<longleftrightarrow> 12 dvd Suc m"
proof -
  have "\<lfloor>real (Suc m) / real 12\<rfloor> = int (Suc m div 12)"
    by (rule floor_divide_of_nat_eq)
  then have "trunc (real (Suc m) / 12) = int (Suc m div 12)"
    by (simp add: trunc_def del: of_nat_Suc)
  moreover have "Num (of_nat m) + Num 1 = Num (real (Suc m))"
    by (simp add: add.commute)
  ultimately have "js_rem (Num (of_nat m) + Num 1) (Num 12) =
      Num (real (Suc m) - 12 * real (Suc m div 12))"
    by (simp only: js_rem.simps) simp
  then show ?thesis
    by (simp add: real_div_mod_12 dvd_eq_mod_eq_0 del: of_nat_Suc)
qed

lemma year_index:
  assumes "12 dvd Suc m"
  shows "Math_floor ((Num (of_nat m) + Num 1) / Num 12) - Num 1 =
         Num (of_int (int (Suc m div 12) - 1))"
proof -
  from assms obtain y where y: "Suc m = 12 * y" ..
  then have "real (Suc m) = real (12 * y)"
    by (simp only:)
  then have "real m + 1 = 12 * real y"
    by simp
  with y show ?thesis
    by (simp add: minus_jsnum_def)
qed

lemma annual_ratios_scheduled:
  assumes "month st = Num (of_nat m)" "12 dvd Suc m"
  shows "annual_ratios v st h =
     (if v = V1
      then st \<lparr> annual_pr_ratios := (annual_pr_ratios st)
             (int (Suc m div 12) - 1 \<mapsto>
                stored (ratio_of (marketCap st) (totalAnnualValue st h))) \<rparr>
      else st \<lparr>
             annual_pv_ratios_usd := (annual_pv_ratios_usd st)
               (int (Suc m div 12) - 1 \<mapsto>
                  stored (ratio_of (marketCap st) (totalAnnualValueUSD h))),
             annual_pv_ratios_market := (annual_pv_ratios_market st)
               (int (Suc m div 12) - 1 \<mapsto>
                  stored (ratio_of (marketCap st) (totalAnnualValueMarket st h))) \<rparr>)"
  using assms
  by (simp only: annual_ratios_def Let_def rem12 year_index array_set.simps floor_of_int
      if_True)

lemma annual_ratios_skipped:
  assumes "month st = Num (of_nat m)" "\<not> 12 dvd Suc m"
  shows "annual_ratios v st h = st"
  using assms by (simp only: annual_ratios_def rem12 if_False)

subsection \<open>More concrete instances\<close>

lemma default_v2_fields:
  "modelVersion default_v2 = V2"
  "simulation_months (simParams default_v2) = Num 36"
  "month (simState default_v2) = Num 0"
  "history (simState default_v2) \<noteq> None"
  "initial_values (simState default_v2) \<noteq> None"
  by (simp_all add: default_v2_def init_eval)

lemma try_block_no_history:
  assumes "history (simState this) = None"
  shows "try_block this = Inl (TypeError, after_updates this)"
proof -
  from assms have "history (simState (after_updates this)) = None"
    by (simp add: after_updates_frame)
  then show ?thesis
    by (simp add: try_block_after_updates recordHistory_no_history)
qed

lemma constructor_fields:
  "modelVersion constructor = V2"
  "simParams constructor = empty_params"
  "simState constructor = empty_state"
  by (simp_all add: constructor_def)

lemma constructor_runs: "month_runs constructor"
  by (simp add: month_runs_def constructor_fields empty_state_def empty_params_def)

lemma constructor_burn: "month_burn constructor = zero_burn_V2"
  by (simp add: month_burn_def calculateBuybackAndBurn_def calculateBuybackAndBurnV2_def
      month_distribution_def distributeFees_def distributeFeesV2_def calculateFees_def
      constructor_fields empty_params_def Let_def)

lemma after_updates_tokens_to_burn:
  "tokens_to_burn_st (simState (after_updates this)) = tokens_burned (month_burn this)"
  by (simp add: after_updates_def stage_defs Let_def)

lemma nan_buyback_fields:
  "modelVersion nan_buyback = V2"
  "simParams nan_buyback = \<lparr>
       monthly_woofi_swap_volume = Num 1482000000,
       monthly_woofi_perp_volume = Num 339000000,
       monthly_woox_volume = Num 10977000000,
       woofi_staker_share = Num 0.8,
       auto_compound_adoption_rate = NaN,
       woox_staker_bps = Num 0.00001,
       buyback_burn_share = NaN,
       staker_share = Num 0.3,
       treasury_share = Num 0.2,
       affiliate_share = Num 0.6,
       woofi_fee_rate = Num 0.000008,
       supply_elasticity = Num 10,
       buying_pressure_elasticity = Num 1.5,
       buying_pressure_decay = Num 0.15,
       simulation_months = Num 36,
       initial_circulating_supply = Num 1909200000,
       woox_total_fee_rate = Num 0.0001,
       woox_staker_bps_reward = Num 0.00001 \<rparr>"
  "month (simState nan_buyback) = Num 0"
  "woo_price (simState nan_buyback) = Num 0.065"
  "history (simState nan_buyback) \<noteq> None"
  "initial_values (simState nan_buyback) \<noteq> None"
  by (simp_all add: nan_buyback_def init_eval)

lemma nan_buyback_month:
  "month_runs nan_buyback"
  "buyback_burn_amount (month_distribution nan_buyback) = NaN"
  by (simp_all add: month_runs_def month_distribution_def distributeFees_def
      distributeFeesV2_def calculateFees_def nan_buyback_fields Let_def minus_jsnum_def)

subsection \<open>Presence of controls\<close>

lemma read_params_present:
  "read_params c v \<noteq> None \<longleftrightarrow>
     (woofiSwapVolume c \<noteq> None \<and> woofiPerpVolume c \<noteq> None \<and> wooxVolume c \<noteq> None \<and>
      (if v = V1 then autoCompoundRate c \<noteq> None
       else buybackBurnShare c \<noteq> None \<and> stakerShare c \<noteq> None \<and>
            treasuryShare c \<noteq> None \<and> wooxStakerBps c \<noteq> None) \<and>
      affiliateCut c \<noteq> None \<and> woofiTradingFeeRate c \<noteq> None \<and>
      supplyElasticity c \<noteq> None \<and> buyingPressureElasticity c \<noteq> None \<and>
      buyingPressureDecay c \<noteq> None \<and> simulationDuration c \<noteq> None \<and>
      circulatingSupply c \<noteq> None)"
  by (cases v) (auto simp add: read_params_def split: Option.bind_splits)

lemma read_state_present:
  "read_state c p \<noteq> None \<longleftrightarrow>
     (initialStaked c \<noteq> None \<and> initialWoofiTreasury c \<noteq> None \<and>
      initialWooxTreasury c \<noteq> None)"
  by (auto simp add: read_state_def split: Option.bind_splits)

lemma controls_present_iff:
  "controls_present c v \<longleftrightarrow>
     read_params c v \<noteq> None \<and> (\<forall>p. read_state c p \<noteq> None)"
  unfolding read_params_present read_state_present controls_present_def by auto

subsection \<open>Treasury clamp and burn stage\<close>

lemma Math_max_zero: "isNaN (Math_max (Num 0) x) \<or> Num 0 \<le> Math_max (Num 0) x"
  by (cases x) simp_all

lemma updateTreasuryV1_balances:
  "woofi_treasury_balance (simState (updateTreasuryV1 this dd bd)) =
     Math_max (Num 0)
       (woofi_treasury_balance (simState this) +
        ((if woo_price (simState this) > Num 0
          then woofi_treasury_inflow_usd dd / woo_price (simState this) else Num 0) -
         woofi_tokens_burned bd))"
  "woox_treasury_balance (simState (updateTreasuryV1 this dd bd)) =
     Math_max (Num 0)
       (woox_treasury_balance (simState this) +
        ((if woo_price (simState this) > Num 0
          then woox_treasury_inflow_usd dd / woo_price (simState this) else Num 0) -
         woox_tokens_burned bd))"
  by (simp_all add: updateTreasuryV1_def Let_def del: Math_max.simps)

lemma updateTreasury_V1:
  "modelVersion this = V1 \<Longrightarrow> updateTreasury this dd bd = updateTreasuryV1 this dd bd"
  by (simp add: updateTreasury_def)

lemma updateTreasury_clamped:
  assumes "modelVersion this = V1"
  shows "isNaN (woofi_treasury_balance (simState (updateTreasury this dd bd))) \<or>
      Num 0 \<le> woofi_treasury_balance (simState (updateTreasury this dd bd))"
    "isNaN (woox_treasury_balance (simState (updateTreasury this dd bd))) \<or>
      Num 0 \<le> woox_treasury_balance (simState (updateTreasury this dd bd))"
  unfolding updateTreasury_V1 [OF assms] updateTreasuryV1_balances
  by (rule Math_max_zero)+

lemma default_v1_fields:
  "modelVersion default_v1 = V1"
  "simParams default_v1 = \<lparr>
       monthly_woofi_swap_volume = Num 1482000000,
       monthly_woofi_perp_volume = Num 339000000,
       monthly_woox_volume = Num 10977000000,
       woofi_staker_share = Num 0.8,
       auto_compound_adoption_rate = Num 0.7,
       woox_staker_bps = Num 0.00001,
       buyback_burn_share = NaN,
       staker_share = NaN,
       treasury_share = NaN,
       affiliate_share = Num 0.6,
       woofi_fee_rate = Num 0.000008,
       supply_elasticity = Num 10,
       buying_pressure_elasticity = Num 1.5,
       buying_pressure_decay = Num 0.15,
       simulation_months = Num 36,
       initial_circulating_supply = Num 1909200000,
       woox_total_fee_rate = Num 0.0001,
       woox_staker_bps_reward = Num 0.00001 \<rparr>"
  "month (simState default_v1) = Num 0"
  "woo_price (simState default_v1) = Num 0.065"
  "woofi_treasury_balance (simState default_v1) = Num 41800000"
  "history (simState default_v1) \<noteq> None"
  "initial_values (simState default_v1) \<noteq> None"
  by (simp_all add: default_v1_def init_eval)

lemma default_v1_month:
  "month_runs default_v1"
  "total_staker_rewards_usd (month_distribution default_v1) = Num 120122.64"
  by (simp_all add: month_runs_def month_distribution_def distributeFees_def
      distributeFeesV1_def calculateFees_def default_v1_fields Let_def minus_jsnum_def)

lemma no_circulating_fields:
  "modelVersion no_circulating = V2"
  "simParams no_circulating = \<lparr>
       monthly_woofi_swap_volume = Num 1482000000,
       monthly_woofi_perp_volume = Num 339000000,
       monthly_woox_volume = Num 10977000000,
       woofi_staker_share = Num 0.8,
       auto_compound_adoption_rate = NaN,
       woox_staker_bps = Num 0.00001,
       buyback_burn_share = Num 0.5,
       staker_share = Num 0.3,
       treasury_share = Num 0.2,
       affiliate_share = Num 0.6,
       woofi_fee_rate = Num 0.000008,
       supply_elasticity = Num 10,
       buying_pressure_elasticity = Num 1.5,
       buying_pressure_decay = Num 0.15,
       simulation_months = Num 36,
       initial_circulating_supply = Num 0,
       woox_total_fee_rate = Num 0.0001,
       woox_staker_bps_reward = Num 0.00001 \<rparr>"
  "month (simState no_circulating) = Num 0"
  "woo_price (simState no_circulating) = Num 0.065"
  "circulating_supply (simState no_circulating) = Num 0"
  "history (simState no_circulating) \<noteq> None"
  "initial_values (simState no_circulating) \<noteq> None"
  by (simp_all add: no_circulating_def init_eval)

lemma no_circulating_month:
  "month_runs no_circulating"
  "market_purchase_tokens (month_burn no_circulating) = Num (6470.4 / 0.065)"
  "tokens_burned (month_burn no_circulating) = Num (6470.4 / 0.065)"
  by (simp_all add: month_eval no_circulating_fields)

lemma negative_volume_fields:
  "modelVersion negative_volume = V1"
  "simParams negative_volume = \<lparr>
       monthly_woofi_swap_volume = Num 1482000000,
       monthly_woofi_perp_volume = Num 339000000,
       monthly_woox_volume = Num (- 3000000000000),
       woofi_staker_share = Num 0.8,
       auto_compound_adoption_rate = Num 0.7,
       woox_staker_bps = Num 0.00001,
       buyback_burn_share = NaN,
       staker_share = NaN,
       treasury_share = NaN,
       affiliate_share = Num 0.6,
       woofi_fee_rate = Num 0.000008,
       supply_elasticity = Num 10,
       buying_pressure_elasticity = Num 1.5,
       buying_pressure_decay = Num 0.15,
       simulation_months = Num 36,
       initial_circulating_supply = Num 1909200000,
       woox_total_fee_rate = Num 0.0001,
       woox_staker_bps_reward = Num 0.00001 \<rparr>"
  "woo_price (simState negative_volume) = Num 0.065"
  "woofi_treasury_balance (simState negative_volume) = Num 41800000"
  by (simp_all add: negative_volume_def init_eval)

lemma negative_volume_month:
  "total_staker_rewards_usd (month_distribution negative_volume) = Num (- 29989647.36)"
  by (simp add: month_distribution_def distributeFees_def
      distributeFeesV1_def calculateFees_def negative_volume_fields Let_def minus_jsnum_def)

lemma le_Num0_cases:
  assumes "Num 0 \<le> x"
  obtains (pos) "Num 0 < x" | (zero) "x = Num 0"
  using assms by (cases x) (auto simp add: order_le_less)

lemma zero_div_price:
  assumes "isFinite p" "Num 0 < p"
  shows "Num 0 / p = Num 0"
  using assms by (cases p) auto

subsection \<open>Doubles\<close>

lemma fl64_eval:
  assumes "2 ^ n \<le> \<bar>x\<bar>" "\<bar>x\<bar> < 2 ^ Suc n" "n \<le> 52"
  shows "fl64 x = of_int (rne (x * 2 ^ (52 - n))) / 2 ^ (52 - n)"
proof -
  have "(0::real) < 2 ^ n"
    by simp
  with assms(1) have "0 < \<bar>x\<bar>"
    by linarith
  then have x: "x \<noteq> 0" "0 < \<bar>x\<bar>"
    by simp_all
  have "\<lfloor>log 2 \<bar>x\<bar>\<rfloor> = int n"
    using assms x by (subst floor_log_eq_powr_iff) (simp_all add: powr_realpow powr_add)
  then have e: "ulp_exponent x = - int (52 - n)"
    using assms(3) by (simp add: ulp_exponent_def)
  have p: "2 powr of_int (- int (52 - n)) = 1 / (2::real) ^ (52 - n)"
    by (simp add: powr_minus powr_realpow inverse_eq_divide)
  show ?thesis
    using x by (simp add: fl64_def e p del: of_int_minus)
qed

lemma round64_eval:
  assumes "2 ^ n \<le> \<bar>x\<bar>" "\<bar>x\<bar> < 2 ^ Suc n" "n \<le> 52"
  shows "round64 x = Num (of_int (rne (x * 2 ^ (52 - n))) / 2 ^ (52 - n))"
proof -
  have "(2::real) ^ Suc n \<le> 2 ^ 53"
    using assms(3) by (intro power_increasing) simp_all
  also have "\<dots> < 2 ^ 1024 - 2 ^ 970"
    by simp
  finally have "\<bar>x\<bar> < 2 ^ 1024 - 2 ^ 970"
    using assms(2) by simp
  then show ?thesis
    by (simp add: round64_def fl64_eval [OF assms])
qed

subsection \<open>The default run\<close>

lemma default_v2_state:
  "simParams default_v2 = \<lparr>
       monthly_woofi_swap_volume = Num 1482000000,
       monthly_woofi_perp_volume = Num 339000000,
       monthly_woox_volume = Num 10977000000,
       woofi_staker_share = Num 0.8,
       auto_compound_adoption_rate = NaN,
       woox_staker_bps = Num 0.00001,
       buyback_burn_share = Num 0.5,
       staker_share = Num 0.3,
       treasury_share = Num 0.2,
       affiliate_share = Num 0.6,
       woofi_fee_rate = Num 0.000008,
       supply_elasticity = Num 10,
       buying_pressure_elasticity = Num 1.5,
       buying_pressure_decay = Num 0.15,
       simulation_months = Num 36,
       initial_circulating_supply = Num 1909200000,
       woox_total_fee_rate = Num 0.0001,
       woox_staker_bps_reward = Num 0.00001 \<rparr>"
  "woo_price (simState default_v2) = Num 0.065"
  "total_supply (simState default_v2) = Num 2209243570"
  "circulating_supply (simState default_v2) = Num 1909200000"
  "cumulative_tokens_burned (simState default_v2) = Num 0"
  "temporary_price_impact (simState default_v2) = Num 0"
  "history (simState default_v2) = Some empty_history"
  by (simp_all add: default_v2_def init_eval)

lemma default_v2_month:
  "month_runs default_v2"
  "market_purchase_tokens (month_burn default_v2) = Num (1294080 / 13)"
  "tokens_burned (month_burn default_v2) = Num (1294080 / 13)"
  "permanent_impact (month_price_impact default_v2) = Num (2696 / 5170750)"
  "total_temporary_impact (month_price_impact default_v2) = Num (97056 / 4153000000)"
  by (simp_all add: month_eval default_v2_fields default_v2_state)

lemma month1_burn64_fields:
  "market_purchase_tokens month1_burn64 = Num (855081735139643 / 2 ^ 33)"
  "tokens_burned month1_burn64 = Num (855081735139643 / 2 ^ 33)"
  by (simp_all add: month1_burn64_def)

lemma month1_supply64:
  "total_supply (simState (updateSupply64 default_v2 month1_burn64)) =
     Num (4632910811123397 / 2 ^ 21)"
  "cumulative_tokens_burned (simState (updateSupply64 default_v2 month1_burn64)) =
     Num (855081735139643 / 2 ^ 33)"
  by (simp_all add: updateSupply64_def month1_burn64_fields default_v2_state minus64_def Let_def
      round64_eval [where n = 31] round64_eval [where n = 16] rne_def)

lemma default_v1_supply:
  "total_supply (simState default_v1) = Num 2209243570"
  "circulating_supply (simState default_v1) = Num 1909200000"
  "cumulative_tokens_burned (simState default_v1) = Num 0"
  by (simp_all add: default_v1_def init_eval)

lemma updateSupply64_burn64_V1:
  assumes "0 \<le> b"
  shows "total_supply (simState (updateSupply64 this (burn64_V1 b))) =
      minus64 (total_supply (simState this)) (Num b)"
    "cumulative_tokens_burned (simState (updateSupply64 this (burn64_V1 b))) =
      plus64 (cumulative_tokens_burned (simState this)) (Num b)"
  using assms by (simp_all add: updateSupply64_def burn64_V1_def zero_burn_V1_def Let_def)

lemma month1_supply64_V1:
  "total_supply (simState default_v1_month1_64) = Num (4630406635861795 / 2 ^ 21)"
  "cumulative_tokens_burned (simState default_v1_month1_64) = Num (2778045901664823 / 2 ^ 31)"
  unfolding default_v1_month1_64_def
  by (simp_all add: updateSupply64_burn64_V1 default_v1_supply minus64_def
      round64_eval [where n = 31] round64_eval [where n = 20] rne_def)

lemma month2_supply64_V1:
  "total_supply (simState default_v1_month2_64) = Num (1156928192883601 / 2 ^ 19)"
  "cumulative_tokens_burned (simState default_v1_month2_64) = Num (1384140743228309 / 2 ^ 29)"
  unfolding default_v1_month2_64_def
  by (simp_all add: updateSupply64_burn64_V1 month1_supply64_V1 minus64_def
      round64_eval [where n = 31] round64_eval [where n = 21] rne_def)

lemma month3_supply64_V1:
  "total_supply (simState default_v1_month3_64) = Num (2312519207711287 / 2 ^ 20)"
  "cumulative_tokens_burned (simState default_v1_month3_64) = Num (8275103631426689 / 2 ^ 31)"
  unfolding default_v1_month3_64_def
  by (simp_all add: updateSupply64_burn64_V1 month2_supply64_V1 minus64_def
      round64_eval [where n = 31] round64_eval [where n = 21] rne_def)

subsection \<open>What \<^verbatim>\<open>updateSupply\<close> moves\<close>

lemma updateSupply_moves:
  "total_supply (simState (updateSupply this bd)) =
     (if tokens_burned bd < Num 0 \<or> \<not> isFinite (tokens_burned bd) \<or>
         market_purchase_tokens bd < Num 0 \<or> \<not> isFinite (market_purchase_tokens bd)
      then total_supply (simState this)
      else total_supply (simState this) - tokens_burned bd)"
  "cumulative_tokens_burned (simState (updateSupply this bd)) =
     (if tokens_burned bd < Num 0 \<or> \<not> isFinite (tokens_burned bd) \<or>
         market_purchase_tokens bd < Num 0 \<or> \<not> isFinite (market_purchase_tokens bd)
      then cumulative_tokens_burned (simState this)
      else cumulative_tokens_burned (simState this) + tokens_burned bd)"
  by (simp_all add: updateSupply_def Let_def)

lemma updateSupply_monotone:
  assumes "total_supply (simState this) = Num T"
    and "cumulative_tokens_burned (simState this) = Num C" and "0 \<le> C"
  shows "\<exists>T' C'. total_supply (simState (updateSupply this bd)) = Num T' \<and> T' \<le> T \<and>
           cumulative_tokens_burned (simState (updateSupply this bd)) = Num C' \<and> C \<le> C'"
proof (cases "tokens_burned bd")
  case (Num b)
  with assms show ?thesis
    by (auto simp add: updateSupply_moves minus_jsnum_def)
qed (use assms in \<open>simp_all add: updateSupply_moves\<close>)

lemma step_monotone:
  assumes "total_supply (simState this) = Num T"
    and "cumulative_tokens_burned (simState this) = Num C" and "0 \<le> C"
  shows "\<exists>T' C'. total_supply (simState (snd (simulationStep this))) = Num T' \<and> T' \<le> T \<and>
           cumulative_tokens_burned (simState (snd (simulationStep this))) = Num C' \<and> C \<le> C'"
  using updateSupply_monotone [OF assms, of "month_burn this"] assms
  by (simp add: step_fields)

lemma steps_burned:
  assumes "total_supply (simState this) = Num T"
    and "cumulative_tokens_burned (simState this) = Num C" and "0 \<le> C"
  shows "\<exists>T' C'. total_supply (simState (steps n this)) = Num T' \<and>
           cumulative_tokens_burned (simState (steps n this)) = Num C' \<and> 0 \<le> C'"
proof (induction n)
  case 0
  show ?case using assms by simp
next
  case (Suc n)
  then obtain T' C' where *: "total_supply (simState (steps n this)) = Num T'"
    "cumulative_tokens_burned (simState (steps n this)) = Num C'" "0 \<le> C'"
    by blast
  from step_monotone [OF *] * show ?case
    unfolding steps_Suc by force
qed

subsection \<open>Buying pressure along a run\<close>










subsection \<open>The runs without buyback\<close>

lemma no_buyback_month:
  "month_runs no_buyback"
  "buying_pressure_usd no_buyback = Num 0"
  "usdc_to_stakers (month_burn no_buyback) = Num 120122.64"
  by (simp_all add: month_eval no_buyback_params no_buyback_state)



subsection \<open>The trailing window\<close>

lemma or_zero_isNaN: "or_zero x = (if isNaN x then Num 0 else x)"
  by (cases x) simp_all

lemma window_sum_trailing:
  assumes "length xs = n"
  shows "window_sum xs (n - 12) n = trailing_window_total xs"
proof -
  have "foldl (\<lambda>acc i. acc + or_zero (js_nth xs i) * Num 1000000) (Num 0) [n - 12..<n] =
      foldl (\<lambda>acc i. acc + (if isNaN (xs ! i) then Num 0 else xs ! i) * Num 1000000) (Num 0)
        [n - 12..<n]"
    by (rule foldl_cong) (simp_all add: js_nth_def or_zero_isNaN assms)
  also have "\<dots> = foldl (\<lambda>acc x. acc + (if isNaN x then Num 0 else x) * Num 1000000) (Num 0)
      (map (nth xs) [n - 12..<n])"
    by (simp add: foldl_map)
  also have "map (nth xs) [n - 12..<n] = drop (n - 12) xs"
    using assms by (intro nth_equalityI) (simp_all add: nth_map_upt)
  finally show ?thesis
    by (simp add: window_sum_def trailing_window_total_def assms)
qed

lemma stored_ratio_of: "stored (ratio_of cap den) = stored_ratio cap den"
  by (simp add: stored_def ratio_of_def stored_ratio_def)

lemma stored_ratio_finite: "stored_ratio cap den = Null \<or> isFinite (ratio_value (stored_ratio cap den))"
  by (simp add: stored_ratio_def)

lemma finite_ratios_update:
  assumes "finite_ratios arr"
  shows "finite_ratios (arr(k \<mapsto> stored_ratio cap den))"
  using assms stored_ratio_finite [of cap den]
  by (auto simp add: finite_ratios_def ran_def)

lemma month_history_flows:
  "months (month_history this h iv) = months h @ [month (simState (after_updates this)) + Num 1]"
  "usdc_distributed (month_history this h iv) =
     usdc_distributed h @ [usdc_to_stakers (month_burn this) / Num 1000000]"
  "monthlyBurned (month_history this h iv) =
     monthlyBurned h @ [tokens_burned (month_burn this) / Num 1000000]"
  "buyback_amounts (month_history this h iv) =
     buyback_amounts h @
       [if modelVersion this = V1 then Num 0 else buyback_usd (month_burn this) / Num 1000000]"
  "auto_compound_amounts (month_history this h iv) =
     auto_compound_amounts h @
       [if modelVersion this = V1 then auto_compound_usd (month_burn this) / Num 1000000
        else Num 0]"
  by (simp_all add: month_history_def record_analytics_def record_flows_def Let_def push_def)

lemma annual_totals:
  assumes "length (usdc_distributed h) = length (months h)"
    "length (buyback_amounts h) = length (months h)"
    "length (auto_compound_amounts h) = length (months h)"
    "length (monthlyBurned h) = length (months h)"
  shows "annualUSDC h = trailing_window_total (usdc_distributed h)"
    "annualBuybackUSD h = trailing_window_total (buyback_amounts h)"
    "annualAutoCompoundUSD h = trailing_window_total (auto_compound_amounts h)"
    "annualTokensBurned h = trailing_window_total (monthlyBurned h)"
  using assms
  by (simp_all add: annualUSDC_def annualBuybackUSD_def annualAutoCompoundUSD_def
      annualTokensBurned_def window_start_def window_sum_trailing)

lemma completed_step:
  assumes "month_runs this" "history (simState this) = Some h"
    "initial_values (simState this) = Some iv"
  shows "snd (simulationStep this) =
     (after_updates this) \<lparr> simState :=
        (annual_ratios (modelVersion this)
           ((simState (after_updates this)) \<lparr> history := Some (month_history this h iv) \<rparr>)
           (month_history this h iv))
        \<lparr> month := month (simState this) + Num 1 \<rparr> \<rparr>"
  using assms by (cases this rule: simulationStep_result) auto

lemma completed_step_history:
  assumes "month_runs this" "history (simState this) = Some h"
    "initial_values (simState this) = Some iv"
  shows "history (simState (snd (simulationStep this))) = Some (month_history this h iv)"
    "month (simState (snd (simulationStep this))) = month (simState this) + Num 1"
    "circulating_supply (simState (snd (simulationStep this))) =
       circulating_supply (simState (after_updates this))"
    "woo_price (simState (snd (simulationStep this))) = woo_price (simState (after_updates this))"
  unfolding completed_step [OF assms]
  by (simp_all add: annual_ratios_frame)

lemma completed_step_annual:
  assumes "month_runs this" "history (simState this) = Some h"
    "initial_values (simState this) = Some iv"
    and m: "month (simState this) = Num (of_nat m)"
    and len: "length (usdc_distributed h) = length (months h)"
    "length (buyback_amounts h) = length (months h)"
    "length (auto_compound_amounts h) = length (months h)"
    "length (monthlyBurned h) = length (months h)"
  shows "annual_pr_ratios (simState (snd (simulationStep this))) =
     (if 12 dvd Suc m \<and> modelVersion this = V1
      then (annual_pr_ratios (simState this))
        (int (Suc m div 12) - 1 \<mapsto>
           stored_ratio
             (circulating_supply (simState (snd (simulationStep this))) *
              woo_price (simState (snd (simulationStep this))))
             (trailing_window_total (usdc_distributed (month_history this h iv)) +
              trailing_window_total (monthlyBurned (month_history this h iv)) *
                woo_price (simState (snd (simulationStep this))) +
              trailing_window_total (auto_compound_amounts (month_history this h iv))))
      else annual_pr_ratios (simState this))"
    and "annual_pv_ratios_usd (simState (snd (simulationStep this))) =
     (if 12 dvd Suc m \<and> modelVersion this \<noteq> V1
      then (annual_pv_ratios_usd (simState this))
        (int (Suc m div 12) - 1 \<mapsto>
           stored_ratio
             (circulating_supply (simState (snd (simulationStep this))) *
              woo_price (simState (snd (simulationStep this))))
             (trailing_window_total (usdc_distributed (month_history this h iv)) +
              trailing_window_total (buyback_amounts (month_history this h iv))))
      else annual_pv_ratios_usd (simState this))"
    and "annual_pv_ratios_market (simState (snd (simulationStep this))) =
     (if 12 dvd Suc m \<and> modelVersion this \<noteq> V1
      then (annual_pv_ratios_market (simState this))
        (int (Suc m div 12) - 1 \<mapsto>
           stored_ratio
             (circulating_supply (simState (snd (simulationStep this))) *
              woo_price (simState (snd (simulationStep this))))
             (trailing_window_total (usdc_distributed (month_history this h iv)) +
              trailing_window_total (monthlyBurned (month_history this h iv)) *
                woo_price (simState (snd (simulationStep this)))))
      else annual_pv_ratios_market (simState this))"
proof -
  let ?hm = "month_history this h iv"
  let ?st = "(simState (after_updates this)) \<lparr> history := Some ?hm \<rparr>"
  have mst: "month ?st = Num (of_nat m)"
    using m by (simp add: after_updates_frame)
  have lens: "length (usdc_distributed ?hm) = length (months ?hm)"
    "length (buyback_amounts ?hm) = length (months ?hm)"
    "length (auto_compound_amounts ?hm) = length (months ?hm)"
    "length (monthlyBurned ?hm) = length (months ?hm)"
    using len by (simp_all add: month_history_flows)
  note tot = annual_totals [OF lens]
  have "annual_pr_ratios (simState (snd (simulationStep this))) =
     (if 12 dvd Suc m \<and> modelVersion this = V1
      then (annual_pr_ratios (simState this))
        (int (Suc m div 12) - 1 \<mapsto>
           stored_ratio
             (circulating_supply (simState (snd (simulationStep this))) *
              woo_price (simState (snd (simulationStep this))))
             (trailing_window_total (usdc_distributed (month_history this h iv)) +
              trailing_window_total (monthlyBurned (month_history this h iv)) *
                woo_price (simState (snd (simulationStep this))) +
              trailing_window_total (auto_compound_amounts (month_history this h iv))))
      else annual_pr_ratios (simState this)) \<and>
    annual_pv_ratios_usd (simState (snd (simulationStep this))) =
     (if 12 dvd Suc m \<and> modelVersion this \<noteq> V1
      then (annual_pv_ratios_usd (simState this))
        (int (Suc m div 12) - 1 \<mapsto>
           stored_ratio
             (circulating_supply (simState (snd (simulationStep this))) *
              woo_price (simState (snd (simulationStep this))))
             (trailing_window_total (usdc_distributed (month_history this h iv)) +
              trailing_window_total (buyback_amounts (month_history this h iv))))
      else annual_pv_ratios_usd (simState this)) \<and>
    annual_pv_ratios_market (simState (snd (simulationStep this))) =
     (if 12 dvd Suc m \<and> modelVersion this \<noteq> V1
      then (annual_pv_ratios_market (simState this))
        (int (Suc m div 12) - 1 \<mapsto>
           stored_ratio
             (circulating_supply (simState (snd (simulationStep this))) *
              woo_price (simState (snd (simulationStep this))))
             (trailing_window_total (usdc_distributed (month_history this h iv)) +
              trailing_window_total (monthlyBurned (month_history this h iv)) *
                woo_price (simState (snd (simulationStep this)))))
      else annual_pv_ratios_market (simState this))"
  proof (cases "12 dvd Suc m")
    case True
    show ?thesis
      unfolding completed_step_history [OF assms(1-3)]
      unfolding completed_step [OF assms(1-3)] annual_ratios_scheduled [OF mst True]
      by (simp add: True after_updates_frame marketCap_def totalAnnualValue_def
          totalAnnualValueUSD_def totalAnnualValueMarket_def tot stored_ratio_of)
  next
    case False
    show ?thesis
      unfolding completed_step [OF assms(1-3)] annual_ratios_skipped [OF mst False]
      by (simp add: False after_updates_frame)
  qed
  then show "annual_pr_ratios (simState (snd (simulationStep this))) =
     (if 12 dvd Suc m \<and> modelVersion this = V1
      then (annual_pr_ratios (simState this))
        (int (Suc m div 12) - 1 \<mapsto>
           stored_ratio
             (circulating_supply (simState (snd (simulationStep this))) *
              woo_price (simState (snd (simulationStep this))))
             (trailing_window_total (usdc_distributed (month_history this h iv)) +
              trailing_window_total (monthlyBurned (month_history this h iv)) *
                woo_price (simState (snd (simulationStep this))) +
              trailing_window_total (auto_compound_amounts (month_history this h iv))))
      else annual_pr_ratios (simState this))"
    and "annual_pv_ratios_usd (simState (snd (simulationStep this))) =
     (if 12 dvd Suc m \<and> modelVersion this \<noteq> V1
      then (annual_pv_ratios_usd (simState this))
        (int (Suc m div 12) - 1 \<mapsto>
           stored_ratio
             (circulating_supply (simState (snd (simulationStep this))) *
              woo_price (simState (snd (simulationStep this))))
             (trailing_window_total (usdc_distributed (month_history this h iv)) +
              trailing_window_total (buyback_amounts (month_history this h iv))))
      else annual_pv_ratios_usd (simState this))"
    and "annual_pv_ratios_market (simState (snd (simulationStep this))) =
     (if 12 dvd Suc m \<and> modelVersion this \<noteq> V1
      then (annual_pv_ratios_market (simState this))
        (int (Suc m div 12) - 1 \<mapsto>
           stored_ratio
             (circulating_supply (simState (snd (simulationStep this))) *
              woo_price (simState (snd (simulationStep this))))
             (trailing_window_total (usdc_distributed (month_history this h iv)) +
              trailing_window_total (monthlyBurned (month_history this h iv)) *
                woo_price (simState (snd (simulationStep this)))))
      else annual_pv_ratios_market (simState this))"
    by blast+
qed

subsection \<open>The records of a run\<close>

lemma initialize_records_inv:
  assumes "initialize this0 c v = Inr this"
  shows "records_inv this"
proof -
  from assms obtain p st where st: "read_state c p = Some st" "simState this = st"
    by (rule initialize_Inr)
  from st(1) have "annual_pr_ratios st = Map.empty" "annual_pv_ratios_usd st = Map.empty"
    "annual_pv_ratios_market st = Map.empty"
    by (auto simp add: read_state_def INITIAL_STATE_def split: Option.bind_splits)
  with read_state_Some [OF st(1)] st(2) show ?thesis
    by (auto simp add: records_inv_def empty_history_def finite_ratios_def)
qed

lemma step_records_inv:
  assumes "records_inv this"
  shows "records_inv (snd (simulationStep this))"
proof (cases "month_runs this")
  case False
  then have "snd (simulationStep this) = this"
    by (simp add: simulationStep_cases)
  with assms show ?thesis by simp
next
  case True
  from assms obtain h iv where h: "history (simState this) = Some h"
    and iv: "initial_values (simState this) = Some iv"
    and m: "month (simState this) = Num (of_nat (length (months h)))"
    and len: "length (usdc_distributed h) = length (months h)"
      "length (buyback_amounts h) = length (months h)"
      "length (auto_compound_amounts h) = length (months h)"
      "length (monthlyBurned h) = length (months h)"
    and fin: "finite_ratios (annual_pr_ratios (simState this))"
      "finite_ratios (annual_pv_ratios_usd (simState this))"
      "finite_ratios (annual_pv_ratios_market (simState this))"
    unfolding records_inv_def by blast
  note hist = completed_step_history [OF True h iv]
  note ann = completed_step_annual [OF True h iv m len]
  have "month (simState (snd (simulationStep this))) =
      Num (of_nat (length (months (month_history this h iv))))"
    unfolding hist(2) m by (simp add: month_history_flows add.commute)
  moreover have "finite_ratios (annual_pr_ratios (simState (snd (simulationStep this))))"
    "finite_ratios (annual_pv_ratios_usd (simState (snd (simulationStep this))))"
    "finite_ratios (annual_pv_ratios_market (simState (snd (simulationStep this))))"
    unfolding ann using fin by (simp_all add: finite_ratios_update)
  moreover have "initial_values (simState (snd (simulationStep this))) = Some iv"
    using iv by (simp add: step_fields)
  ultimately show ?thesis
    unfolding records_inv_def using hist(1) len
    by (simp add: month_history_flows)
qed

lemma steps_records_inv: "records_inv this \<Longrightarrow> records_inv (steps n this)"
  by (induction n arbitrary: this) (simp_all add: step_records_inv)

subsection \<open>The steady run\<close>

lemma no_buyback_start:
  "temporary_price_impact (simState no_buyback) = Num 0"
  "history (simState no_buyback) = Some empty_history"
  by (simp_all add: no_buyback_def init_eval)

lemma steady_start: "steady 0 no_buyback"
  by (simp add: steady_def no_buyback_params no_buyback_state no_buyback_start
      empty_history_def)

lemma steady_step:
  assumes "steady k this" "k < 36"
  shows "steady (Suc k) (snd (simulationStep this))"
proof -
  from assms(1) obtain h iv where f: "modelVersion this = V2"
    "simParams this = simParams no_buyback"
    "month (simState this) = Num (of_nat k)"
    "woo_price (simState this) = Num 0.065"
    "circulating_supply (simState this) = Num 1909200000"
    "temporary_price_impact (simState this) = Num 0"
    and iv: "initial_values (simState this) = Some iv"
    and h: "history (simState this) = Some h"
    and rec: "usdc_distributed h = replicate k (Num 120122.64 / Num 1000000)"
    "buyback_amounts h = replicate k (Num 0)"
    "monthlyBurned h = replicate k (Num 0)"
    unfolding steady_def no_buyback_month by auto
  have runs: "month_runs this"
    using assms(2) by (simp add: month_runs_def f no_buyback_params)
  have ev: "tokens_burned (month_burn this) = Num 0"
    "market_purchase_tokens (month_burn this) = Num 0"
    "buyback_usd (month_burn this) = Num 0"
    "usdc_to_stakers (month_burn this) = Num 120122.64"
    "price_change_multiplier (month_price_impact this) = Num 1"
    "total_temporary_impact (month_price_impact this) = Num 0"
    by (simp_all add: month_eval f no_buyback_params)
  note hist = completed_step_history [OF runs h iv]
  have "woo_price (simState (snd (simulationStep this))) = Num 0.065"
    by (simp add: step_fields runs updatePrice_price ev f)
  moreover have "temporary_price_impact (simState (snd (simulationStep this))) = Num 0"
    by (simp add: step_fields runs updatePrice_temporary ev)
  moreover have "circulating_supply (simState (snd (simulationStep this))) = Num 1909200000"
    by (simp add: step_fields runs updateSupply_def ev f minus_jsnum_def)
  moreover have "month (simState (snd (simulationStep this))) = Num (of_nat (Suc k))"
    unfolding hist(2) f by (simp add: add.commute)
  moreover have "initial_values (simState (snd (simulationStep this))) \<noteq> None"
    using iv by (simp add: step_fields)
  moreover have "usdc_distributed (month_history this h iv) =
      replicate (Suc k) (Num 120122.64 / Num 1000000)"
    "buyback_amounts (month_history this h iv) = replicate (Suc k) (Num 0)"
    "monthlyBurned (month_history this h iv) = replicate (Suc k) (Num 0)"
    unfolding month_history_flows rec ev f
    by (simp_all add: replicate_append_same)
  ultimately show ?thesis
    unfolding steady_def no_buyback_month using hist(1) f(1,2)
    by simp
qed

lemma steady_steps: "k \<le> 36 \<Longrightarrow> steady k (steps k no_buyback)"
proof (induction k)
  case 0
  show ?case by (simp add: steady_start)
next
  case (Suc k)
  then have "steady k (steps k no_buyback)" "k < 36"
    by simp_all
  then show ?case
    unfolding steps_Suc by (rule steady_step)
qed

lemma trailing_year:
  "trailing_window_total (replicate 12 (Num x)) = Num (12 * (x * 1000000))"
  by (simp add: trailing_window_total_def numeral_eq_Suc)

section \<open>The claims\<close>

subsection \<open>C1: numeric degeneration in a month\<close>

text \<open>
  Claim C1, as amended. When the burn stage finds the flow it spends (the total staker
  rewards under Variant A, the buyback amount under Variant B) negative or not finite, or
  the spot price not positive or not finite, it returns the all-zero result for the month.
  The step does not abort for it: whenever the month is run and the state has its history
  and initial values, \<^verbatim>\<open>simulationStep\<close> completes the month, increments the month
  counter and returns \<open>true\<close>.
\<close>

theorem degenerate_month_continues:
  "(modelVersion this = V1 \<and>
      (total_staker_rewards_usd dd < Num 0 \<or> \<not> isFinite (total_staker_rewards_usd dd) \<or>
       woo_price (simState this) \<le> Num 0 \<or> \<not> isFinite (woo_price (simState this))) \<longrightarrow>
      calculateBuybackAndBurn this dd = zero_burn_V1) \<and>
   (modelVersion this \<noteq> V1 \<and>
      (buyback_burn_amount dd < Num 0 \<or> \<not> isFinite (buyback_burn_amount dd) \<or>
       woo_price (simState this) \<le> Num 0 \<or> \<not> isFinite (woo_price (simState this))) \<longrightarrow>
      calculateBuybackAndBurn this dd = zero_burn_V2) \<and>
   (month_runs this \<and> history (simState this) \<noteq> None \<and>
      initial_values (simState this) \<noteq> None \<longrightarrow>
      fst (simulationStep this) \<and>
      month (simState (snd (simulationStep this))) = month (simState this) + Num 1)"
proof (intro conjI impI)
  assume "modelVersion this = V1 \<and>
      (total_staker_rewards_usd dd < Num 0 \<or> \<not> isFinite (total_staker_rewards_usd dd) \<or>
       woo_price (simState this) \<le> Num 0 \<or> \<not> isFinite (woo_price (simState this)))"
  then show "calculateBuybackAndBurn this dd = zero_burn_V1"
    by (auto simp add: calculateBuybackAndBurn_def calculateAutoCompoundAndBurn_def Let_def)
next
  assume "modelVersion this \<noteq> V1 \<and>
      (buyback_burn_amount dd < Num 0 \<or> \<not> isFinite (buyback_burn_amount dd) \<or>
       woo_price (simState this) \<le> Num 0 \<or> \<not> isFinite (woo_price (simState this)))"
  then show "calculateBuybackAndBurn this dd = zero_burn_V2"
    by (auto simp add: calculateBuybackAndBurn_def calculateBuybackAndBurnV2_def Let_def)
next
  assume a: "month_runs this \<and> history (simState this) \<noteq> None \<and>
      initial_values (simState this) \<noteq> None"
  then show "fst (simulationStep this)"
    by (simp add: step_continues)
  then show "month (simState (snd (simulationStep this))) = month (simState this) + Num 1"
    by (simp add: step_month)
qed

theorem degenerate_month_continues_witness:
  "modelVersion nan_buyback \<noteq> V1 \<and>
   \<not> isFinite (buyback_burn_amount (month_distribution nan_buyback)) \<and>
   calculateBuybackAndBurn nan_buyback (month_distribution nan_buyback) = zero_burn_V2 \<and>
   month_runs nan_buyback \<and> history (simState nan_buyback) \<noteq> None \<and>
   initial_values (simState nan_buyback) \<noteq> None \<and>
   fst (simulationStep nan_buyback) \<and>
   month (simState (snd (simulationStep nan_buyback))) = Num 1"
  using degenerate_month_continues [of nan_buyback "month_distribution nan_buyback"]
  by (simp add: nan_buyback_fields nan_buyback_month)

text \<open>
  The claim as stated, that the step returns \<open>false\<close>: with a buyback share that is not
  a number the buyback amount of the month is \<open>NaN\<close>, the burn stage returns the
  all-zero result, and the step returns \<open>true\<close> with the month counter at 1.
\<close>

theorem degenerate_month_counterexample:
  "buyback_burn_amount (month_distribution nan_buyback) = NaN \<and>
   month_burn nan_buyback = zero_burn_V2 \<and>
   simulationStep nan_buyback = (True, snd (simulationStep nan_buyback)) \<and>
   month (simState (snd (simulationStep nan_buyback))) = Num 1"
proof -
  have "fst (simulationStep nan_buyback)"
    by (rule step_continues) (rule nan_buyback_month nan_buyback_fields)+
  moreover from this have "month (simState (snd (simulationStep nan_buyback))) = Num 1"
    by (simp add: step_month nan_buyback_fields)
  moreover have "month_burn nan_buyback = zero_burn_V2"
    by (simp add: month_burn_def calculateBuybackAndBurn_def calculateBuybackAndBurnV2_def
        nan_buyback_month nan_buyback_fields)
  ultimately show ?thesis
    by (simp add: nan_buyback_month prod_eq_iff)
qed

subsection \<open>C2: what \<^verbatim>\<open>initialize\<close> accepts\<close>

text \<open>
  Claim C2, as amended. \<^verbatim>\<open>initialize\<close> does not validate values. When every control
  that the chosen variant reads is present it succeeds, whatever the values (not finite
  or out of range included), and installs the parameters and the initial state derived
  from the configuration (month 0, price 0.065, total supply 2,209,243,570, nothing
  burned, empty history). When such a control is missing it fails with a
  \<open>TypeError\<close>, and the state store is left as it was.
\<close>

theorem initialize_without_validation:
  "(controls_present c v \<longrightarrow>
      (\<exists>p st. read_params c v = Some p \<and> read_state c p = Some st \<and>
         initialize this c v = Inr \<lparr> modelVersion = v, simParams = p, simState = st \<rparr> \<and>
         month st = Num 0 \<and> woo_price st = Num 0.065 \<and> total_supply st = Num 2209243570 \<and>
         cumulative_tokens_burned st = Num 0 \<and> history st = Some empty_history)) \<and>
   (\<not> controls_present c v \<longrightarrow>
      (\<exists>this'. initialize this c v = Inl (TypeError, this') \<and>
         simState this' = simState this))"
proof (intro conjI impI)
  assume "controls_present c v"
  then obtain p where p: "read_params c v = Some p"
    by (auto simp add: controls_present_iff)
  from \<open>controls_present c v\<close> obtain st where st: "read_state c p = Some st"
    by (auto simp add: controls_present_iff)
  have "initialize this c v = Inr \<lparr> modelVersion = v, simParams = p, simState = st \<rparr>"
    using p st by (cases this) (simp add: initialize_def)
  with p st read_state_Some [OF st]
  show "\<exists>p st. read_params c v = Some p \<and> read_state c p = Some st \<and>
         initialize this c v = Inr \<lparr> modelVersion = v, simParams = p, simState = st \<rparr> \<and>
         month st = Num 0 \<and> woo_price st = Num 0.065 \<and> total_supply st = Num 2209243570 \<and>
         cumulative_tokens_burned st = Num 0 \<and> history st = Some empty_history"
    by blast
next
  assume "\<not> controls_present c v"
  then have "read_params c v = None \<or> (\<exists>p. read_state c p = None)"
    by (auto simp add: controls_present_iff)
  moreover have "\<forall>q. read_state c q = None" if "read_state c p = None" for p
    using that read_state_present [of c p] read_state_present [of c] by blast
  ultimately have "read_params c v = None \<or> (\<forall>p. read_state c p = None)"
    by blast
  then show "\<exists>this'. initialize this c v = Inl (TypeError, this') \<and>
         simState this' = simState this"
    by (cases "read_params c v") (auto simp add: initialize_def)
qed

theorem initialize_without_validation_witness:
  "controls_present DEFAULT_VALUES V2 \<and>
   initialize constructor DEFAULT_VALUES V2 = Inr default_v2 \<and>
   month (simState default_v2) = Num 0 \<and>
   \<not> controls_present (DEFAULT_VALUES \<lparr> initialStaked := None \<rparr>) V1 \<and>
   isl (initialize constructor (DEFAULT_VALUES \<lparr> initialStaked := None \<rparr>) V1) \<and>
   simState (snd (projl (initialize constructor
     (DEFAULT_VALUES \<lparr> initialStaked := None \<rparr>) V1))) = simState constructor"
proof -
  have present: "controls_present DEFAULT_VALUES V2"
    by (simp add: controls_present_def DEFAULT_VALUES_def)
  have absent: "\<not> controls_present (DEFAULT_VALUES \<lparr> initialStaked := None \<rparr>) V1"
    by (simp add: controls_present_def DEFAULT_VALUES_def)
  from initialize_without_validation [of DEFAULT_VALUES V2 constructor] present
  obtain p st where "initialize constructor DEFAULT_VALUES V2 =
      Inr \<lparr> modelVersion = V2, simParams = p, simState = st \<rparr>" "month st = Num 0"
    by blast
  then have "initialize constructor DEFAULT_VALUES V2 = Inr default_v2"
    "month (simState default_v2) = Num 0"
    by (simp_all add: default_v2_def)
  moreover
  from initialize_without_validation
    [of "DEFAULT_VALUES \<lparr> initialStaked := None \<rparr>" V1 constructor] absent
  obtain this' where
    "initialize constructor (DEFAULT_VALUES \<lparr> initialStaked := None \<rparr>) V1 =
       Inl (TypeError, this')" "simState this' = simState constructor"
    by blast
  then have "isl (initialize constructor (DEFAULT_VALUES \<lparr> initialStaked := None \<rparr>) V1)"
    "simState (snd (projl (initialize constructor
       (DEFAULT_VALUES \<lparr> initialStaked := None \<rparr>) V1))) = simState constructor"
    by simp_all
  ultimately show ?thesis
    using present absent by blast
qed

text \<open>
  The claim as stated: a configuration whose swap volume is not a number and whose
  affiliate cut is 250 percent is accepted; and the failure for a missing control leaves
  the model version and the parameters of the failed call in the instance.
\<close>

theorem initialize_validation_counterexample:
  "\<not> isl (initialize constructor
      (DEFAULT_VALUES \<lparr> woofiSwapVolume := Some NaN, affiliateCut := Some (Num 250) \<rparr>) V2) \<and>
   monthly_woofi_swap_volume (simParams (projr (initialize constructor
      (DEFAULT_VALUES \<lparr> woofiSwapVolume := Some NaN, affiliateCut := Some (Num 250) \<rparr>) V2)))
     = NaN \<and>
   affiliate_share (simParams (projr (initialize constructor
      (DEFAULT_VALUES \<lparr> woofiSwapVolume := Some NaN, affiliateCut := Some (Num 250) \<rparr>) V2)))
     = Num 2.5 \<and>
   isl (initialize constructor (DEFAULT_VALUES \<lparr> initialStaked := None \<rparr>) V1) \<and>
   modelVersion constructor = V2 \<and>
   modelVersion (snd (projl (initialize constructor
      (DEFAULT_VALUES \<lparr> initialStaked := None \<rparr>) V1))) = V1 \<and>
   auto_compound_adoption_rate (simParams constructor) = NaN \<and>
   auto_compound_adoption_rate (simParams (snd (projl (initialize constructor
      (DEFAULT_VALUES \<lparr> initialStaked := None \<rparr>) V1)))) = Num 0.7"
  by (simp add: init_eval empty_params_def)

subsection \<open>C3: clamping of balances\<close>

text \<open>
  Claim C3, as amended. Under Variant A, \<^verbatim>\<open>updateTreasury\<close> clamps both treasury
  balances: after it, and so after every month that is run, each balance is at least
  \<open>0\<close> (or \<open>NaN\<close> when the update computed \<open>NaN\<close>), and the clamp is no error:
  the step continues whenever the month is run and the state has its history and initial
  values. \<^verbatim>\<open>updateSupply\<close> does not clamp: when it accepts the month's burn, the
  supplies after it are the supplies before minus the tokens burned and purchased.
\<close>

theorem treasury_clamped_v1:
  assumes "modelVersion this = V1"
  shows "(isNaN (woofi_treasury_balance (simState (updateTreasury this dd bd))) \<or>
            Num 0 \<le> woofi_treasury_balance (simState (updateTreasury this dd bd))) \<and>
         (isNaN (woox_treasury_balance (simState (updateTreasury this dd bd))) \<or>
            Num 0 \<le> woox_treasury_balance (simState (updateTreasury this dd bd))) \<and>
         (month_runs this \<longrightarrow>
            (isNaN (woofi_treasury_balance (simState (snd (simulationStep this)))) \<or>
               Num 0 \<le> woofi_treasury_balance (simState (snd (simulationStep this)))) \<and>
            (isNaN (woox_treasury_balance (simState (snd (simulationStep this)))) \<or>
               Num 0 \<le> woox_treasury_balance (simState (snd (simulationStep this))))) \<and>
         (month_runs this \<and> history (simState this) \<noteq> None \<and>
            initial_values (simState this) \<noteq> None \<longrightarrow> fst (simulationStep this)) \<and>
         (\<not> (tokens_burned bd < Num 0 \<or> \<not> isFinite (tokens_burned bd) \<or>
             market_purchase_tokens bd < Num 0 \<or> \<not> isFinite (market_purchase_tokens bd)) \<longrightarrow>
            total_supply (simState (updateSupply this bd)) =
              total_supply (simState this) - tokens_burned bd \<and>
            circulating_supply (simState (updateSupply this bd)) =
              circulating_supply (simState this) - market_purchase_tokens bd)"
proof -
  note clamp = updateTreasury_clamped [OF assms]
  have unclamped:
    "\<not> (tokens_burned bd < Num 0 \<or> \<not> isFinite (tokens_burned bd) \<or>
        market_purchase_tokens bd < Num 0 \<or> \<not> isFinite (market_purchase_tokens bd)) \<longrightarrow>
     total_supply (simState (updateSupply this bd)) =
       total_supply (simState this) - tokens_burned bd \<and>
     circulating_supply (simState (updateSupply this bd)) =
       circulating_supply (simState this) - market_purchase_tokens bd"
    by (simp add: updateSupply_def Let_def)
  show ?thesis
  proof (cases "month_runs this")
    case True
    with clamp [of dd bd] clamp [of "month_distribution this" "month_burn this"] unclamped
    show ?thesis
      by (simp add: step_fields step_continues)
  next
    case False
    with clamp [of dd bd] unclamped show ?thesis
      by simp
  qed
qed


theorem treasury_clamped_v1_witness:
  "modelVersion default_v1 = V1 \<and> month_runs default_v1 \<and>
   history (simState default_v1) \<noteq> None \<and> initial_values (simState default_v1) \<noteq> None \<and>
   fst (simulationStep default_v1) \<and>
   (isNaN (woofi_treasury_balance (simState (snd (simulationStep default_v1)))) \<or>
      Num 0 \<le> woofi_treasury_balance (simState (snd (simulationStep default_v1)))) \<and>
   (isNaN (woox_treasury_balance (simState (snd (simulationStep default_v1)))) \<or>
      Num 0 \<le> woox_treasury_balance (simState (snd (simulationStep default_v1))))"
  using treasury_clamped_v1 [of default_v1 "month_distribution default_v1"
      "month_burn default_v1"]
  by (simp add: default_v1_fields default_v1_month)

text \<open>
  The claim as stated, for the supplies: a Variant B run configured with no circulating
  supply completes its first month with \<open>circulating_supply\<close> negative, and continues.
\<close>

theorem supply_clamp_counterexample:
  "simulationStep no_circulating = (True, snd (simulationStep no_circulating)) \<and>
   circulating_supply (simState no_circulating) = Num 0 \<and>
   circulating_supply (simState (snd (simulationStep no_circulating))) =
     Num (- (6470.4 / 0.065)) \<and>
   circulating_supply (simState (snd (simulationStep no_circulating))) < Num 0"
proof -
  have "fst (simulationStep no_circulating)"
    by (rule step_continues) (rule no_circulating_month no_circulating_fields)+
  then have "simulationStep no_circulating = (True, snd (simulationStep no_circulating))"
    by (simp add: prod_eq_iff)
  moreover have "circulating_supply (simState (snd (simulationStep no_circulating))) =
      Num (- (6470.4 / 0.065))"
    by (simp add: step_fields no_circulating_month updateSupply_def no_circulating_fields
        minus_jsnum_def Let_def)
  ultimately show ?thesis
    by (simp add: no_circulating_fields)
qed

subsection \<open>C4: supply ordering and monotonicity\<close>

text \<open>
  Claim C4, as amended. In every run (either variant) whose configured initial circulating
  supply is a number not above the initial total supply (2,209,243,570 tokens), every
  month's state satisfies \<open>circulating_supply \<le> total_supply \<le> max_supply\<close>, and
  neither \<open>total_supply\<close> nor \<open>circulating_supply\<close> increases from one step to the
  next.
\<close>

theorem supply_invariant:
  assumes "initialize this0 c v = Inr this"
    and "circulatingSupply c = Some (Num x)"
    and "x * 1000000 \<le> 2209243570"
  shows "circulating_supply (simState (steps n this)) \<le> total_supply (simState (steps n this)) \<and>
         total_supply (simState (steps n this)) \<le> max_supply (simState (steps n this)) \<and>
         total_supply (simState (steps (Suc n) this)) \<le> total_supply (simState (steps n this)) \<and>
         circulating_supply (simState (steps (Suc n) this)) \<le>
           circulating_supply (simState (steps n this))"
proof -
  from assms(1) obtain p st where st: "read_params c v = Some p" "read_state c p = Some st"
    "simState this = st"
    by (rule initialize_Inr)
  from st(1) assms(2) have "initial_circulating_supply p = Num (x * 1000000)"
    by (auto elim!: read_params_Some)
  with read_state_Some [OF st(2)] st(3)
  have T: "total_supply (simState this) = Num 2209243570"
    and C: "circulating_supply (simState this) = Num (x * 1000000)"
    and M: "max_supply (simState this) = Num 3000000000"
    by simp_all
  from steps_supply [OF T C, of n] obtain b m where bm: "0 \<le> b" "b \<le> m"
    "total_supply (simState (steps n this)) = Num (2209243570 - b)"
    "circulating_supply (simState (steps n this)) = Num (x * 1000000 - m)"
    by blast
  from step_supply [OF bm(3,4)] obtain b' m' where bm': "0 \<le> b'" "b' \<le> m'"
    "total_supply (simState (steps (Suc n) this)) = Num (2209243570 - b - b')"
    "circulating_supply (simState (steps (Suc n) this)) = Num (x * 1000000 - m - m')"
    unfolding steps_Suc by blast
  from bm bm' M assms(3) show ?thesis
    by simp
qed

theorem supply_invariant_witness:
  "initialize constructor DEFAULT_VALUES V2 = Inr default_v2 \<and>
   circulatingSupply DEFAULT_VALUES = Some (Num 1909.2) \<and>
   (1909.2 :: real) * 1000000 \<le> 2209243570 \<and>
   circulating_supply (simState (steps 1 default_v2)) \<le>
     total_supply (simState (steps 1 default_v2)) \<and>
   total_supply (simState (steps 1 default_v2)) \<le> max_supply (simState (steps 1 default_v2)) \<and>
   total_supply (simState (steps (Suc 1) default_v2)) \<le>
     total_supply (simState (steps 1 default_v2)) \<and>
   circulating_supply (simState (steps (Suc 1) default_v2)) \<le>
     circulating_supply (simState (steps 1 default_v2))"
proof -
  have init: "initialize constructor DEFAULT_VALUES V2 = Inr default_v2"
    by (simp add: default_v2_def initialize_def read_params_def read_state_def
        DEFAULT_VALUES_def Let_def)
  have circ: "circulatingSupply DEFAULT_VALUES = Some (Num 1909.2)"
    by (simp add: DEFAULT_VALUES_def)
  have le: "(1909.2 :: real) * 1000000 \<le> 2209243570"
    by simp
  from init circ le supply_invariant [OF init circ le, of 1] show ?thesis
    by blast
qed

text \<open>
  The claim as stated, for every run: \<^verbatim>\<open>initialize\<close> accepts an initial circulating
  supply of 2,500 million tokens, and the state starts with
  \<open>circulating_supply > total_supply\<close>.
\<close>

theorem supply_invariant_counterexample:
  "\<not> isl (initialize constructor (DEFAULT_VALUES \<lparr> circulatingSupply := Some (Num 2500) \<rparr>) V2) \<and>
   \<not> circulating_supply (simState (projr
        (initialize constructor (DEFAULT_VALUES \<lparr> circulatingSupply := Some (Num 2500) \<rparr>) V2)))
      \<le> total_supply (simState (projr
        (initialize constructor (DEFAULT_VALUES \<lparr> circulatingSupply := Some (Num 2500) \<rparr>) V2)))"
  by (simp add: initialize_def read_params_def read_state_def DEFAULT_VALUES_def Let_def
      INITIAL_STATE_def)

subsection \<open>C5: the matched burn of Variant A\<close>

text \<open>
  Claim C5, as amended. Under Variant A, in every month with a finite positive spot price,
  finite non-negative staker rewards and a non-negative auto-compound amount,
  \<open>auto_compound_usd\<close> is the total staker rewards times the adoption rate,
  \<open>purchase_tokens\<close> is \<open>auto_compound_usd / price\<close>, and the tokens burned are
  \<open>min(purchase_tokens, primary treasury balance)\<close>, all of them burned by the primary
  treasury and none by the secondary one.
\<close>

theorem treasury_match_burn:
  assumes "modelVersion this = V1"
    and "isFinite (total_staker_rewards_usd dd)"
    and "Num 0 \<le> total_staker_rewards_usd dd"
    and "isFinite (woo_price (simState this))"
    and "Num 0 < woo_price (simState this)"
    and "Num 0 \<le> total_staker_rewards_usd dd * auto_compound_adoption_rate (simParams this)"
  shows "auto_compound_usd (calculateBuybackAndBurn this dd) =
           total_staker_rewards_usd dd * auto_compound_adoption_rate (simParams this) \<and>
         market_purchase_tokens (calculateBuybackAndBurn this dd) =
           auto_compound_usd (calculateBuybackAndBurn this dd) / woo_price (simState this) \<and>
         tokens_burned (calculateBuybackAndBurn this dd) =
           Math_min (market_purchase_tokens (calculateBuybackAndBurn this dd))
             (woofi_treasury_balance (simState this)) \<and>
         woofi_tokens_burned (calculateBuybackAndBurn this dd) =
           tokens_burned (calculateBuybackAndBurn this dd) \<and>
         woox_tokens_burned (calculateBuybackAndBurn this dd) = Num 0"
proof -
  from assms(2,3) have r: "\<not> total_staker_rewards_usd dd < Num 0"
    by (cases "total_staker_rewards_usd dd") auto
  from assms(4,5) have p: "\<not> woo_price (simState this) \<le> Num 0"
    by (cases "woo_price (simState this)") auto
  from assms(6) show ?thesis
  proof (cases rule: le_Num0_cases)
    case pos
    with assms(1,2,4) r p show ?thesis
      by (simp add: calculateBuybackAndBurn_def calculateAutoCompoundAndBurn_def Let_def
          del: Math_min.simps)
  next
    case zero
    with assms(1,2,4) r p zero_div_price [OF assms(4,5)] show ?thesis
      by (simp add: calculateBuybackAndBurn_def calculateAutoCompoundAndBurn_def Let_def
          del: Math_min.simps)
  qed
qed

theorem treasury_match_burn_witness:
  "modelVersion default_v1 = V1 \<and>
   total_staker_rewards_usd (month_distribution default_v1) = Num 120122.64 \<and>
   woo_price (simState default_v1) = Num 0.065 \<and>
   auto_compound_adoption_rate (simParams default_v1) = Num 0.7 \<and>
   woofi_treasury_balance (simState default_v1) = Num 41800000 \<and>
   auto_compound_usd (month_burn default_v1) = Num 84085.848 \<and>
   market_purchase_tokens (month_burn default_v1) = Num (84085.848 / 0.065) \<and>
   tokens_burned (month_burn default_v1) = Num (84085.848 / 0.065) \<and>
   woox_tokens_burned (month_burn default_v1) = Num 0"
  using treasury_match_burn [of default_v1 "month_distribution default_v1"]
  by (simp add: default_v1_fields default_v1_month month_burn_def)

text \<open>
  The claim as stated, for finite staker rewards: with a negative secondary-venue volume
  the staker rewards of the month are finite and negative, the price is positive, and the
  burn stage returns the all-zero result, where the formula gives a negative burn.
\<close>

theorem treasury_match_burn_counterexample:
  "modelVersion negative_volume = V1 \<and>
   isFinite (total_staker_rewards_usd (month_distribution negative_volume)) \<and>
   Num 0 < woo_price (simState negative_volume) \<and>
   tokens_burned (month_burn negative_volume) = Num 0 \<and>
   Math_min
     (total_staker_rewards_usd (month_distribution negative_volume) *
        auto_compound_adoption_rate (simParams negative_volume) /
        woo_price (simState negative_volume))
     (woofi_treasury_balance (simState negative_volume)) =
     Num (- 29989647.36 * 0.7 / 0.065) \<and>
   tokens_burned (month_burn negative_volume) \<noteq>
     Math_min
       (total_staker_rewards_usd (month_distribution negative_volume) *
          auto_compound_adoption_rate (simParams negative_volume) /
          woo_price (simState negative_volume))
       (woofi_treasury_balance (simState negative_volume))"
  by (simp add: negative_volume_fields negative_volume_month month_burn_def
      calculateBuybackAndBurn_def calculateAutoCompoundAndBurn_def zero_burn_V1_def)

subsection \<open>C6: the price update and its bounds\<close>

text \<open>
  Claim C6. In every month of a run that starts from a successful \<^verbatim>\<open>initialize\<close>: when
  the month is run and its price multiplier
  \<open>1 + permanent_impact + total_temporary_impact\<close> is finite and positive, the new
  spot price is the old price times that multiplier, clamped into \<open>[0.0001, 1000]\<close>;
  otherwise the update is skipped and the price holds its previous value. A month that
  is run records the new price. Consequently the spot price, and every price recorded in
  the history, lies in \<open>[0.0001, 1000]\<close>.
\<close>

theorem price_update_clamped:
  assumes "initialize this0 c v = Inr this"
  shows "\<exists>h h'. history (simState (steps n this)) = Some h \<and>
           history (simState (steps (Suc n) this)) = Some h' \<and>
           (let s = steps n this;
                old_price = woo_price (simState s);
                new_price = woo_price (simState (steps (Suc n) this));
                multiplier = Num 1 + permanent_impact (month_price_impact s) +
                               total_temporary_impact (month_price_impact s)
            in (if month_runs s \<and> isFinite multiplier \<and> multiplier > Num 0
                then new_price =
                       Math_max (Num 0.0001) (Math_min (Num 1000) (old_price * multiplier))
                else new_price = old_price) \<and>
               (if month_runs s then price h' = price h @ [new_price] else price h' = price h) \<and>
               Num 0.0001 \<le> new_price \<and> new_price \<le> Num 1000 \<and>
               (\<forall>x \<in> set (price h'). Num 0.0001 \<le> x \<and> x \<le> Num 1000))"
proof -
  have inv: "price_inv (steps n this)"
    using assms by (simp add: initialize_price_inv steps_price_inv)
  then obtain h iv where h: "history (simState (steps n this)) = Some h"
    "initial_values (simState (steps n this)) = Some iv"
    by (auto simp add: price_inv_def)
  from step_price_inv [OF inv] obtain h' where h': 
    "history (simState (steps (Suc n) this)) = Some h'"
    "list_all price_in_range (price h')"
    "price_in_range (woo_price (simState (steps (Suc n) this)))"
    unfolding steps_Suc by (auto simp add: price_inv_def)
  have rec: "if month_runs (steps n this)
      then price h' = price h @ [woo_price (simState (steps (Suc n) this))]
      else price h' = price h"
  proof (cases "steps n this" rule: simulationStep_result)
    case stopped
    with h h' show ?thesis unfolding steps_Suc by simp
  next
    case (thrown hs)
    with h show ?thesis by simp
  next
    case (completed h0 iv0)
    with h h'(1) have "h' = month_history (steps n this) h iv"
      and "woo_price (simState (steps (Suc n) this)) =
        woo_price (simState (after_updates (steps n this)))"
      unfolding steps_Suc by (simp_all add: annual_ratios_frame)
    with completed(1) show ?thesis
      by (simp add: month_history_price del: steps.simps)
  qed
  have upd: "woo_price (simState (steps (Suc n) this)) =
      (if month_runs (steps n this) \<and>
          isFinite (price_change_multiplier (month_price_impact (steps n this))) \<and>
          price_change_multiplier (month_price_impact (steps n this)) > Num 0
       then Math_max (Num 0.0001) (Math_min (Num 1000)
              (woo_price (simState (steps n this)) *
               price_change_multiplier (month_price_impact (steps n this))))
       else woo_price (simState (steps n this)))"
    unfolding steps_Suc by (simp add: step_fields updatePrice_price)
  show ?thesis
  proof (intro exI conjI)
    show "history (simState (steps n this)) = Some h" by (rule h)
    show "history (simState (steps (Suc n) this)) = Some h'" by (rule h')
    show "let s = steps n this;
                old_price = woo_price (simState s);
                new_price = woo_price (simState (steps (Suc n) this));
                multiplier = Num 1 + permanent_impact (month_price_impact s) +
                               total_temporary_impact (month_price_impact s)
            in (if month_runs s \<and> isFinite multiplier \<and> multiplier > Num 0
                then new_price =
                       Math_max (Num 0.0001) (Math_min (Num 1000) (old_price * multiplier))
                else new_price = old_price) \<and>
               (if month_runs s then price h' = price h @ [new_price] else price h' = price h) \<and>
               Num 0.0001 \<le> new_price \<and> new_price \<le> Num 1000 \<and>
               (\<forall>x \<in> set (price h'). Num 0.0001 \<le> x \<and> x \<le> Num 1000)"
      unfolding Let_def
      using upd rec h'(2,3)
      by (simp add: price_change_multiplier_def price_in_range_def list_all_iff
          del: steps.simps Math_max.simps Math_min.simps)
  qed
qed

theorem price_update_clamped_witness:
  "initialize constructor DEFAULT_VALUES V2 = Inr default_v2 \<and>
   month_runs default_v2 \<and>
   woo_price (simState default_v2) = Num 0.065 \<and>
   Num 1.0005447 <
     Num 1 + permanent_impact (month_price_impact default_v2) +
       total_temporary_impact (month_price_impact default_v2) \<and>
   Num 1 + permanent_impact (month_price_impact default_v2) +
       total_temporary_impact (month_price_impact default_v2) < Num 1.0005448 \<and>
   woo_price (simState (steps 1 default_v2)) =
     Math_max (Num 0.0001) (Math_min (Num 1000)
       (woo_price (simState default_v2) *
        (Num 1 + permanent_impact (month_price_impact default_v2) +
           total_temporary_impact (month_price_impact default_v2)))) \<and>
   Num 0.06503540 < woo_price (simState (steps 1 default_v2)) \<and>
   woo_price (simState (steps 1 default_v2)) < Num 0.06503541 \<and>
   (\<exists>h'. history (simState (steps 1 default_v2)) = Some h' \<and>
      price h' = [woo_price (simState (steps 1 default_v2))])"
proof -
  have init: "initialize constructor DEFAULT_VALUES V2 = Inr default_v2"
    by (simp add: default_v2_def initialize_def read_params_def read_state_def
        DEFAULT_VALUES_def Let_def)
  have one: "steps (Suc 0) default_v2 = steps 1 default_v2"
    by simp
  from price_update_clamped [OF init, of 0] obtain h h' where
    h: "history (simState default_v2) = Some h"
    and h': "history (simState (steps 1 default_v2)) = Some h'"
    and upd: "woo_price (simState (steps 1 default_v2)) =
       Math_max (Num 0.0001) (Math_min (Num 1000)
         (woo_price (simState default_v2) *
          (Num 1 + permanent_impact (month_price_impact default_v2) +
             total_temporary_impact (month_price_impact default_v2))))"
    and rec: "price h' = price h @ [woo_price (simState (steps 1 default_v2))]"
    unfolding one Let_def steps.simps(1)
    by (auto simp add: default_v2_month simp del: steps.simps Math_max.simps Math_min.simps)
  from h have "price h = []"
    by (auto simp add: default_v2_state empty_history_def)
  with rec h' have "\<exists>h'. history (simState (steps 1 default_v2)) = Some h' \<and>
      price h' = [woo_price (simState (steps 1 default_v2))]"
    by simp
  moreover have "Num 0.06503540 < woo_price (simState (steps 1 default_v2)) \<and>
   woo_price (simState (steps 1 default_v2)) < Num 0.06503541"
    unfolding upd by (simp add: default_v2_month default_v2_state)
  ultimately show ?thesis
    using init upd by (simp add: default_v2_month default_v2_state del: steps.simps
        Math_max.simps Math_min.simps)
qed

subsection \<open>C7: the decay law\<close>




subsection \<open>C8: annual ratios\<close>

text \<open>
  Claim C8. In a run that starts from a successful \<^verbatim>\<open>initialize\<close> the month counter
  \<open>m\<close> is the number of months recorded. A step that runs month \<open>m + 1\<close> appends the
  flows of the month to the recorded arrays. When \<open>m + 1\<close> is a multiple of 12 it also
  stores the annual ratios of the variant at the index \<open>(m + 1) / 12 - 1\<close> of the year:
  the market capitalisation (circulating supply times price, after the month's updates)
  over the totals of the trailing window, which are the sums of the last twelve entries of
  the recorded arrays. Under v1 the denominator is distributions plus burn value plus
  auto-compound; under v2 the two denominators are distributions plus buyback, and
  distributions plus burn value. In every other month, and when the step does not run,
  the annual arrays are unchanged. What is stored is the quotient when the denominator is
  positive and the quotient is finite, and \<^verbatim>\<open>null\<close> otherwise: a zero denominator
  gives \<^verbatim>\<open>null\<close>, and every stored entry is \<^verbatim>\<open>null\<close> or a finite number.
\<close>

theorem annual_ratio_schedule:
  assumes "initialize this0 c v = Inr this"
  shows "\<exists>m h h'.
     month (simState (steps n this)) = Num (of_nat m) \<and>
     history (simState (steps n this)) = Some h \<and> length (months h) = m \<and>
     history (simState (steps (Suc n) this)) = Some h' \<and>
     (let s = simState (steps n this); s' = simState (steps (Suc n) this);
          burn = month_burn (steps n this);
          year = int (Suc m div 12);
          cap = circulating_supply s' * woo_price s';
          usdc = trailing_window_total (usdc_distributed h');
          buyback = trailing_window_total (buyback_amounts h');
          auto_compound = trailing_window_total (auto_compound_amounts h');
          burn_value = trailing_window_total (monthlyBurned h') * woo_price s'
      in (if month_runs (steps n this)
          then length (months h') = Suc m \<and>
               usdc_distributed h' =
                 usdc_distributed h @ [usdc_to_stakers burn / Num 1000000] \<and>
               monthlyBurned h' = monthlyBurned h @ [tokens_burned burn / Num 1000000] \<and>
               buyback_amounts h' =
                 buyback_amounts h @
                   [if v = V1 then Num 0 else buyback_usd burn / Num 1000000] \<and>
               auto_compound_amounts h' =
                 auto_compound_amounts h @
                   [if v = V1 then auto_compound_usd burn / Num 1000000 else Num 0] \<and>
               length (usdc_distributed h') = Suc m \<and>
               length (monthlyBurned h') = Suc m \<and>
               length (buyback_amounts h') = Suc m \<and>
               length (auto_compound_amounts h') = Suc m
          else h' = h) \<and>
         (if month_runs (steps n this) \<and> 12 dvd Suc m
          then (if v = V1
                then annual_pr_ratios s' =
                       (annual_pr_ratios s)
                         (year - 1 \<mapsto> stored_ratio cap (usdc + burn_value + auto_compound)) \<and>
                     annual_pv_ratios_usd s' = annual_pv_ratios_usd s \<and>
                     annual_pv_ratios_market s' = annual_pv_ratios_market s
                else annual_pv_ratios_usd s' =
                       (annual_pv_ratios_usd s)
                         (year - 1 \<mapsto> stored_ratio cap (usdc + buyback)) \<and>
                     annual_pv_ratios_market s' =
                       (annual_pv_ratios_market s)
                         (year - 1 \<mapsto> stored_ratio cap (usdc + burn_value)) \<and>
                     annual_pr_ratios s' = annual_pr_ratios s)
          else annual_pr_ratios s' = annual_pr_ratios s \<and>
               annual_pv_ratios_usd s' = annual_pv_ratios_usd s \<and>
               annual_pv_ratios_market s' = annual_pv_ratios_market s) \<and>
         finite_ratios (annual_pr_ratios s') \<and>
         finite_ratios (annual_pv_ratios_usd s') \<and>
         finite_ratios (annual_pv_ratios_market s') \<and>
         (\<forall>x. stored_ratio x (Num 0) = Null))"
proof -
  let ?s = "steps n this"
  from assms have v: "modelVersion ?s = v"
    by (auto elim: initialize_Inr)
  have inv: "records_inv ?s"
    using assms by (simp add: initialize_records_inv steps_records_inv)
  then obtain h iv where h: "history (simState ?s) = Some h"
    and iv: "initial_values (simState ?s) = Some iv"
    and m: "month (simState ?s) = Num (of_nat (length (months h)))"
    and len: "length (usdc_distributed h) = length (months h)"
      "length (buyback_amounts h) = length (months h)"
      "length (auto_compound_amounts h) = length (months h)"
      "length (monthlyBurned h) = length (months h)"
    unfolding records_inv_def by blast
  from step_records_inv [OF inv]
  have fin: "finite_ratios (annual_pr_ratios (simState (steps (Suc n) this)))"
    "finite_ratios (annual_pv_ratios_usd (simState (steps (Suc n) this)))"
    "finite_ratios (annual_pv_ratios_market (simState (steps (Suc n) this)))"
    unfolding steps_Suc records_inv_def by blast+
  have null: "\<forall>x. stored_ratio x (Num 0) = Null"
    by (simp add: stored_ratio_def)
  show ?thesis
  proof (cases "month_runs ?s")
    case False
    then have same: "steps (Suc n) this = ?s"
      unfolding steps_Suc by (simp add: simulationStep_cases)
    show ?thesis
      unfolding Let_def
      using h m False fin null
      by (intro exI [of _ "length (months h)"] exI [of _ h]) (simp add: same del: steps.simps)
  next
    case True
    note hist = completed_step_history [OF True h iv]
    note ann = completed_step_annual [OF True h iv m len, unfolded v]
    have h': "history (simState (steps (Suc n) this)) = Some (month_history ?s h iv)"
      unfolding steps_Suc by (rule hist(1))
    have flows: "length (months (month_history ?s h iv)) = Suc (length (months h))"
      "usdc_distributed (month_history ?s h iv) =
         usdc_distributed h @ [usdc_to_stakers (month_burn ?s) / Num 1000000]"
      "monthlyBurned (month_history ?s h iv) =
         monthlyBurned h @ [tokens_burned (month_burn ?s) / Num 1000000]"
      "buyback_amounts (month_history ?s h iv) =
         buyback_amounts h @
           [if v = V1 then Num 0 else buyback_usd (month_burn ?s) / Num 1000000]"
      "auto_compound_amounts (month_history ?s h iv) =
         auto_compound_amounts h @
           [if v = V1 then auto_compound_usd (month_burn ?s) / Num 1000000 else Num 0]"
      unfolding month_history_flows v by simp_all
    have lens: "length (usdc_distributed (month_history ?s h iv)) = Suc (length (months h))"
      "length (monthlyBurned (month_history ?s h iv)) = Suc (length (months h))"
      "length (buyback_amounts (month_history ?s h iv)) = Suc (length (months h))"
      "length (auto_compound_amounts (month_history ?s h iv)) = Suc (length (months h))"
      unfolding flows using len by simp_all
    have sched: "if 12 dvd Suc (length (months h))
      then (if v = V1
            then annual_pr_ratios (simState (steps (Suc n) this)) =
                   (annual_pr_ratios (simState ?s))
                     (int (Suc (length (months h)) div 12) - 1 \<mapsto>
                        stored_ratio
                          (circulating_supply (simState (steps (Suc n) this)) *
                           woo_price (simState (steps (Suc n) this)))
                          (trailing_window_total (usdc_distributed (month_history ?s h iv)) +
                           trailing_window_total (monthlyBurned (month_history ?s h iv)) *
                             woo_price (simState (steps (Suc n) this)) +
                           trailing_window_total
                             (auto_compound_amounts (month_history ?s h iv)))) \<and>
                 annual_pv_ratios_usd (simState (steps (Suc n) this)) =
                   annual_pv_ratios_usd (simState ?s) \<and>
                 annual_pv_ratios_market (simState (steps (Suc n) this)) =
                   annual_pv_ratios_market (simState ?s)
            else annual_pv_ratios_usd (simState (steps (Suc n) this)) =
                   (annual_pv_ratios_usd (simState ?s))
                     (int (Suc (length (months h)) div 12) - 1 \<mapsto>
                        stored_ratio
                          (circulating_supply (simState (steps (Suc n) this)) *
                           woo_price (simState (steps (Suc n) this)))
                          (trailing_window_total (usdc_distributed (month_history ?s h iv)) +
                           trailing_window_total (buyback_amounts (month_history ?s h iv)))) \<and>
                 annual_pv_ratios_market (simState (steps (Suc n) this)) =
                   (annual_pv_ratios_market (simState ?s))
                     (int (Suc (length (months h)) div 12) - 1 \<mapsto>
                        stored_ratio
                          (circulating_supply (simState (steps (Suc n) this)) *
                           woo_price (simState (steps (Suc n) this)))
                          (trailing_window_total (usdc_distributed (month_history ?s h iv)) +
                           trailing_window_total (monthlyBurned (month_history ?s h iv)) *
                             woo_price (simState (steps (Suc n) this)))) \<and>
                 annual_pr_ratios (simState (steps (Suc n) this)) =
                   annual_pr_ratios (simState ?s))
      else annual_pr_ratios (simState (steps (Suc n) this)) = annual_pr_ratios (simState ?s) \<and>
           annual_pv_ratios_usd (simState (steps (Suc n) this)) =
             annual_pv_ratios_usd (simState ?s) \<and>
           annual_pv_ratios_market (simState (steps (Suc n) this)) =
             annual_pv_ratios_market (simState ?s)"
      unfolding steps_Suc ann by simp
    show ?thesis
      unfolding Let_def
    proof (rule exI [of _ "length (months h)"], rule exI [of _ h],
        rule exI [of _ "month_history ?s h iv"], intro conjI, goal_cases)
      case 1
      show ?case by (rule m)
    next
      case 2
      show ?case by (rule h)
    next
      case 3
      show ?case by (rule refl)
    next
      case 4
      show ?case by (rule h')
    next
      case 5
      show ?case using len by (simp add: True flows del: steps.simps)
    next
      case 6
      from sched show ?case by (simp add: True del: steps.simps)
    next
      case 7
      show ?case by (rule fin)
    next
      case 8
      show ?case by (rule fin)
    next
      case 9
      show ?case by (rule fin)
    next
      case 10
      show ?case by (rule null)
    qed
  qed
qed

theorem annual_ratio_schedule_witness:
  "initialize constructor
     (DEFAULT_VALUES \<lparr> buybackBurnShare := Some (Num 0), stakerShare := Some (Num 80) \<rparr>) V2 =
     Inr no_buyback \<and>
   month (simState (steps 11 no_buyback)) = Num 11 \<and>
   month_runs (steps 11 no_buyback) \<and>
   woo_price (simState (steps 12 no_buyback)) = Num 0.065 \<and>
   circulating_supply (simState (steps 12 no_buyback)) = Num 1909200000 \<and>
   (\<exists>h'. history (simState (steps 12 no_buyback)) = Some h' \<and>
      length (usdc_distributed h') = 12 \<and>
      Num 1441471.67 < trailing_window_total (usdc_distributed h') \<and>
      trailing_window_total (usdc_distributed h') < Num 1441471.69 \<and>
      trailing_window_total (buyback_amounts h') = Num 0 \<and>
      trailing_window_total (monthlyBurned h') = Num 0 \<and>
      annual_pv_ratios_usd (simState (steps 12 no_buyback)) 0 =
        Some (stored_ratio
          (circulating_supply (simState (steps 12 no_buyback)) *
           woo_price (simState (steps 12 no_buyback)))
          (trailing_window_total (usdc_distributed h') +
           trailing_window_total (buyback_amounts h'))) \<and>
      annual_pv_ratios_market (simState (steps 12 no_buyback)) 0 =
        Some (stored_ratio
          (circulating_supply (simState (steps 12 no_buyback)) *
           woo_price (simState (steps 12 no_buyback)))
          (trailing_window_total (usdc_distributed h') +
           trailing_window_total (monthlyBurned h') *
             woo_price (simState (steps 12 no_buyback))))) \<and>
   (\<exists>r. annual_pv_ratios_usd (simState (steps 12 no_buyback)) 0 = Some (Ratio r) \<and>
      Num 86.09 < r \<and> r < Num 86.10) \<and>
   (\<exists>r. annual_pv_ratios_market (simState (steps 12 no_buyback)) 0 = Some (Ratio r) \<and>
      Num 86.09 < r \<and> r < Num 86.10) \<and>
   stored_ratio (Num 124098000) (Num 0) = Null"
proof -
  have init: "initialize constructor
     (DEFAULT_VALUES \<lparr> buybackBurnShare := Some (Num 0), stakerShare := Some (Num 80) \<rparr>) V2 =
     Inr no_buyback"
    by (simp add: no_buyback_def initialize_def read_params_def read_state_def
        DEFAULT_VALUES_def Let_def)
  have "steady 11 (steps 11 no_buyback)"
    by (rule steady_steps) simp
  then have s11: "modelVersion (steps 11 no_buyback) = V2"
    "simParams (steps 11 no_buyback) = simParams no_buyback"
    "month (simState (steps 11 no_buyback)) = Num 11"
    unfolding steady_def by simp_all
  have runs: "month_runs (steps 11 no_buyback)"
    unfolding month_runs_def s11 by (simp add: no_buyback_params)
  have "steady 12 (steps 12 no_buyback)"
    by (rule steady_steps) simp
  then obtain h12 where s12: "woo_price (simState (steps 12 no_buyback)) = Num 0.065"
    "circulating_supply (simState (steps 12 no_buyback)) = Num 1909200000"
    "history (simState (steps 12 no_buyback)) = Some h12"
    "usdc_distributed h12 = replicate 12 (Num 0.12012264)"
    "buyback_amounts h12 = replicate 12 (Num 0)"
    "monthlyBurned h12 = replicate 12 (Num 0)"
    unfolding steady_def no_buyback_month by auto
  have tot: "trailing_window_total (usdc_distributed h12) = Num 1441471.68"
    "trailing_window_total (buyback_amounts h12) = Num 0"
    "trailing_window_total (monthlyBurned h12) = Num 0"
    unfolding s12 trailing_year by simp_all
  have twelve: "Suc 11 = 12"
    by simp
  from annual_ratio_schedule [OF init, of 11] obtain m h h' where
    m: "month (simState (steps 11 no_buyback)) = Num (of_nat m)"
    and h': "history (simState (steps 12 no_buyback)) = Some h'"
    and sched: "if month_runs (steps 11 no_buyback) \<and> 12 dvd Suc m
      then (if V2 = V1
            then annual_pr_ratios (simState (steps 12 no_buyback)) =
                   (annual_pr_ratios (simState (steps 11 no_buyback)))
                     (int (Suc m div 12) - 1 \<mapsto>
                        stored_ratio
                          (circulating_supply (simState (steps 12 no_buyback)) *
                           woo_price (simState (steps 12 no_buyback)))
                          (trailing_window_total (usdc_distributed h') +
                           trailing_window_total (monthlyBurned h') *
                             woo_price (simState (steps 12 no_buyback)) +
                           trailing_window_total (auto_compound_amounts h'))) \<and>
                 annual_pv_ratios_usd (simState (steps 12 no_buyback)) =
                   annual_pv_ratios_usd (simState (steps 11 no_buyback)) \<and>
                 annual_pv_ratios_market (simState (steps 12 no_buyback)) =
                   annual_pv_ratios_market (simState (steps 11 no_buyback))
            else annual_pv_ratios_usd (simState (steps 12 no_buyback)) =
                   (annual_pv_ratios_usd (simState (steps 11 no_buyback)))
                     (int (Suc m div 12) - 1 \<mapsto>
                        stored_ratio
                          (circulating_supply (simState (steps 12 no_buyback)) *
                           woo_price (simState (steps 12 no_buyback)))
                          (trailing_window_total (usdc_distributed h') +
                           trailing_window_total (buyback_amounts h'))) \<and>
                 annual_pv_ratios_market (simState (steps 12 no_buyback)) =
                   (annual_pv_ratios_market (simState (steps 11 no_buyback)))
                     (int (Suc m div 12) - 1 \<mapsto>
                        stored_ratio
                          (circulating_supply (simState (steps 12 no_buyback)) *
                           woo_price (simState (steps 12 no_buyback)))
                          (trailing_window_total (usdc_distributed h') +
                           trailing_window_total (monthlyBurned h') *
                             woo_price (simState (steps 12 no_buyback)))) \<and>
                 annual_pr_ratios (simState (steps 12 no_buyback)) =
                   annual_pr_ratios (simState (steps 11 no_buyback)))
      else annual_pr_ratios (simState (steps 12 no_buyback)) =
             annual_pr_ratios (simState (steps 11 no_buyback)) \<and>
           annual_pv_ratios_usd (simState (steps 12 no_buyback)) =
             annual_pv_ratios_usd (simState (steps 11 no_buyback)) \<and>
           annual_pv_ratios_market (simState (steps 12 no_buyback)) =
             annual_pv_ratios_market (simState (steps 11 no_buyback))"
    and null: "\<forall>x. stored_ratio x (Num 0) = Null"
    unfolding Let_def twelve by blast
  from m s11(3) have "m = 11"
    by simp
  from h' s12(3) have "h' = h12"
    by simp
  from sched runs have usd: "annual_pv_ratios_usd (simState (steps 12 no_buyback)) 0 =
      Some (stored_ratio
        (circulating_supply (simState (steps 12 no_buyback)) *
         woo_price (simState (steps 12 no_buyback)))
        (trailing_window_total (usdc_distributed h12) +
         trailing_window_total (buyback_amounts h12)))"
    and market: "annual_pv_ratios_market (simState (steps 12 no_buyback)) 0 =
      Some (stored_ratio
        (circulating_supply (simState (steps 12 no_buyback)) *
         woo_price (simState (steps 12 no_buyback)))
        (trailing_window_total (usdc_distributed h12) +
         trailing_window_total (monthlyBurned h12) *
           woo_price (simState (steps 12 no_buyback))))"
    unfolding \<open>m = 11\<close> \<open>h' = h12\<close> by (simp_all del: steps.simps)
  have len: "length (usdc_distributed h12) = 12"
    unfolding s12 by simp
  have bounds: "\<exists>r. annual_pv_ratios_usd (simState (steps 12 no_buyback)) 0 = Some (Ratio r) \<and>
      Num 86.09 < r \<and> r < Num 86.10"
    "\<exists>r. annual_pv_ratios_market (simState (steps 12 no_buyback)) 0 = Some (Ratio r) \<and>
      Num 86.09 < r \<and> r < Num 86.10"
    unfolding usd market tot s12(1,2) by (simp_all add: stored_ratio_def)
  have ex: "\<exists>h'. history (simState (steps 12 no_buyback)) = Some h' \<and>
      length (usdc_distributed h') = 12 \<and>
      Num 1441471.67 < trailing_window_total (usdc_distributed h') \<and>
      trailing_window_total (usdc_distributed h') < Num 1441471.69 \<and>
      trailing_window_total (buyback_amounts h') = Num 0 \<and>
      trailing_window_total (monthlyBurned h') = Num 0 \<and>
      annual_pv_ratios_usd (simState (steps 12 no_buyback)) 0 =
        Some (stored_ratio
          (circulating_supply (simState (steps 12 no_buyback)) *
           woo_price (simState (steps 12 no_buyback)))
          (trailing_window_total (usdc_distributed h') +
           trailing_window_total (buyback_amounts h'))) \<and>
      annual_pv_ratios_market (simState (steps 12 no_buyback)) 0 =
        Some (stored_ratio
          (circulating_supply (simState (steps 12 no_buyback)) *
           woo_price (simState (steps 12 no_buyback)))
          (trailing_window_total (usdc_distributed h') +
           trailing_window_total (monthlyBurned h') *
             woo_price (simState (steps 12 no_buyback))))"
    using s12(3) len usd market tot
    by (intro exI [of _ h12]) (simp del: steps.simps)
  from null have "stored_ratio (Num 124098000) (Num 0) = Null"
    by blast
  with init s11(3) runs s12(1,2) ex bounds show ?thesis
    by (intro conjI)
qed

subsection \<open>C9: burn accounting\<close>

text \<open>
  Claim C9, as amended. In every run that starts from a successful \<^verbatim>\<open>initialize\<close>,
  under either variant: a month that is run and whose burn \<^verbatim>\<open>updateSupply\<close> accepts
  (tokens burned and tokens purchased finite and not negative) subtracts the tokens burned
  from \<open>total_supply\<close> and adds them to \<open>cumulative_tokens_burned\<close>, each by one
  operation of the code; every other step leaves both unchanged. The total supply never
  increases and the cumulative burn never decreases. The sum of the two is not stated to
  be constant: the subtraction and the addition are rounded separately.
\<close>

theorem burn_accounting_step:
  assumes "initialize this0 c v = Inr this"
  shows "(let s = steps n this; s' = steps (Suc n) this;
              burned = tokens_burned (month_burn s);
              purchased = market_purchase_tokens (month_burn s)
          in (if month_runs s \<and>
                 \<not> (burned < Num 0 \<or> \<not> isFinite burned \<or>
                    purchased < Num 0 \<or> \<not> isFinite purchased)
              then total_supply (simState s') = total_supply (simState s) - burned \<and>
                   cumulative_tokens_burned (simState s') =
                     cumulative_tokens_burned (simState s) + burned
              else total_supply (simState s') = total_supply (simState s) \<and>
                   cumulative_tokens_burned (simState s') =
                     cumulative_tokens_burned (simState s)) \<and>
             total_supply (simState s') \<le> total_supply (simState s) \<and>
             cumulative_tokens_burned (simState s) \<le> cumulative_tokens_burned (simState s') \<and>
             Num 0 \<le> cumulative_tokens_burned (simState s))"
proof -
  from assms obtain p st where st: "read_state c p = Some st" "simState this = st"
    by (rule initialize_Inr)
  have "total_supply (simState this) = Num 2209243570"
    and "cumulative_tokens_burned (simState this) = Num 0"
    using read_state_Some [OF st(1)] st(2) by simp_all
  from steps_burned [OF this, of n] obtain T C where TC:
    "total_supply (simState (steps n this)) = Num T"
    "cumulative_tokens_burned (simState (steps n this)) = Num C" "0 \<le> C"
    by auto
  from step_monotone [OF TC] TC show ?thesis
    unfolding steps_Suc Let_def
    by (auto simp add: step_fields updateSupply_moves)
qed

theorem burn_accounting_step_witness:
  "initialize constructor DEFAULT_VALUES V2 = Inr default_v2 \<and>
   month_runs default_v2 \<and>
   Num 99544.61 < tokens_burned (month_burn default_v2) \<and>
   tokens_burned (month_burn default_v2) < Num 99544.62 \<and>
   total_supply (simState default_v2) = Num 2209243570 \<and>
   cumulative_tokens_burned (simState default_v2) = Num 0 \<and>
   total_supply (simState (steps 1 default_v2)) =
     total_supply (simState default_v2) - tokens_burned (month_burn default_v2) \<and>
   cumulative_tokens_burned (simState (steps 1 default_v2)) =
     cumulative_tokens_burned (simState default_v2) + tokens_burned (month_burn default_v2) \<and>
   Num 2209144025.38 < total_supply (simState (steps 1 default_v2)) \<and>
   total_supply (simState (steps 1 default_v2)) < Num 2209144025.39 \<and>
   Num 99544.61 < cumulative_tokens_burned (simState (steps 1 default_v2)) \<and>
   cumulative_tokens_burned (simState (steps 1 default_v2)) < Num 99544.62"
proof -
  have init: "initialize constructor DEFAULT_VALUES V2 = Inr default_v2"
    by (simp add: default_v2_def initialize_def read_params_def read_state_def
        DEFAULT_VALUES_def Let_def)
  have one: "steps (Suc 0) default_v2 = steps 1 default_v2"
    by simp
  from burn_accounting_step [OF init, of 0]
  have "total_supply (simState (steps 1 default_v2)) =
      total_supply (simState default_v2) - tokens_burned (month_burn default_v2) \<and>
    cumulative_tokens_burned (simState (steps 1 default_v2)) =
      cumulative_tokens_burned (simState default_v2) + tokens_burned (month_burn default_v2)"
    unfolding one Let_def steps.simps(1)
    by (simp add: default_v2_month del: steps.simps)
  then show ?thesis
    using init by (simp add: default_v2_month default_v2_state minus_jsnum_def del: steps.simps)
qed

text \<open>
  The claim as stated, with the sums and differences rounded as the code's doubles are.
  The first month of the default Variant B run burns \<open>99544.61538461538\<close> tokens: the
  total supply becomes \<open>2209144025.3846154\<close> and the cumulative burn
  \<open>99544.61538461538\<close>, but the initial total supply minus the current one is
  \<open>99544.6153845787\<close>. In the default Variant A run the total supply and the
  cumulative burn add up to \<open>2209243570\<close> after two months and to
  \<open>2209243569.9999995\<close> after the third.
\<close>

theorem burn_conservation_counterexample:
  "total_supply (simState default_v2) = Num 2209243570 \<and>
   cumulative_tokens_burned (simState default_v2) = Num 0 \<and>
   tokens_burned month1_burn64 = Num (855081735139643 / 2 ^ 33) \<and>
   total_supply (simState (updateSupply64 default_v2 month1_burn64)) =
     Num (4632910811123397 / 2 ^ 21) \<and>
   cumulative_tokens_burned (simState (updateSupply64 default_v2 month1_burn64)) =
     Num (855081735139643 / 2 ^ 33) \<and>
   minus64 (total_supply (simState default_v2))
     (total_supply (simState (updateSupply64 default_v2 month1_burn64))) =
     Num (208760189243 / 2 ^ 21) \<and>
   cumulative_tokens_burned (simState (updateSupply64 default_v2 month1_burn64)) \<noteq>
     minus64 (total_supply (simState default_v2))
       (total_supply (simState (updateSupply64 default_v2 month1_burn64))) \<and>
   total_supply (simState default_v1) = Num 2209243570 \<and>
   plus64 (total_supply (simState default_v1_month1_64))
     (cumulative_tokens_burned (simState default_v1_month1_64)) = Num 2209243570 \<and>
   plus64 (total_supply (simState default_v1_month2_64))
     (cumulative_tokens_burned (simState default_v1_month2_64)) = Num 2209243570 \<and>
   total_supply (simState default_v1_month3_64) = Num (2312519207711287 / 2 ^ 20) \<and>
   cumulative_tokens_burned (simState default_v1_month3_64) =
     Num (8275103631426689 / 2 ^ 31) \<and>
   plus64 (total_supply (simState default_v1_month3_64))
     (cumulative_tokens_burned (simState default_v1_month3_64)) =
     Num (4633119571312639 / 2 ^ 21) \<and>
   plus64 (total_supply (simState default_v1_month3_64))
     (cumulative_tokens_burned (simState default_v1_month3_64)) \<noteq>
     total_supply (simState default_v1)"
  unfolding month1_supply64 month1_supply64_V1 month2_supply64_V1 month3_supply64_V1
  by (simp add: default_v2_state default_v1_supply month1_burn64_fields minus64_def
      round64_eval [where n = 31] round64_eval [where n = 16] rne_def)

subsection \<open>C10: the step catches what its stages throw\<close>

text \<open>
  Claim C10. \<^verbatim>\<open>simulationStep\<close> returns a flag for every instance. When the month is
  run and a stage throws (only \<^verbatim>\<open>recordHistory\<close> can, on a state without
  \<^verbatim>\<open>history\<close> or \<^verbatim>\<open>initial_values\<close>), the step returns \<open>false\<close>, the month
  counter is not incremented, and the instance is left as the five state updates made it,
  with the history as far as it was pushed: nothing is rolled back.
\<close>

theorem simulationStep_catches:
  assumes "month_runs this" and "try_block this = Inl (e, this')"
  shows "simulationStep this = (False, this') \<and>
         month (simState this') = month (simState this) \<and>
         (history (simState this) = None \<or> initial_values (simState this) = None) \<and>
         (\<exists>hs. this' = (after_updates this) \<lparr> simState :=
                  (simState (after_updates this)) \<lparr> history := hs \<rparr> \<rparr>)"
proof -
  from assms have step: "simulationStep this = (False, this')"
    by (simp add: simulationStep_cases)
  show ?thesis
  proof (cases this rule: simulationStep_result)
    case stopped
    with assms(1) show ?thesis by simp
  next
    case (thrown hs)
    with step have "this' = (after_updates this) \<lparr> simState :=
        (simState (after_updates this)) \<lparr> history := hs \<rparr> \<rparr>"
      by simp
    with step thrown(2) show ?thesis
      by (intro conjI exI [of _ hs]) (simp_all add: after_updates_frame)
  next
    case (completed h iv)
    with step show ?thesis by simp
  qed
qed

theorem simulationStep_catches_witness:
  "month_runs constructor \<and>
   try_block constructor = Inl (TypeError, after_updates constructor) \<and>
   simulationStep constructor = (False, after_updates constructor) \<and>
   month (simState (after_updates constructor)) = month (simState constructor) \<and>
   tokens_to_burn_st (simState constructor) = NaN \<and>
   tokens_to_burn_st (simState (after_updates constructor)) = Num 0"
proof -
  have run: "month_runs constructor"
    by (rule constructor_runs)
  have thrown: "try_block constructor = Inl (TypeError, after_updates constructor)"
    by (rule try_block_no_history) (simp add: constructor_fields empty_state_def)
  have "tokens_to_burn_st (simState (after_updates constructor)) = Num 0"
    by (simp add: after_updates_tokens_to_burn constructor_burn zero_burn_V2_def)
  moreover have "tokens_to_burn_st (simState constructor) = NaN"
    by (simp add: constructor_fields empty_state_def)
  ultimately show ?thesis
    using simulationStep_catches [OF run thrown] run thrown by blast
qed

end
